theory Spec2Isabelle
  imports Main
begin

section \<open>Python text primitives\<close>

text \<open>
  A Python \<^verbatim>\<open>str\<close> is a sequence of Unicode code points, and \<^verbatim>\<open>len\<close> counts code
  points. Text is therefore modelled as a list of natural numbers, one per code point;
  \<open>cp\<close> reads an ASCII literal as such a list.
\<close>

type_synonym py_str = "nat list"

definition cp :: "string \<Rightarrow> py_str" where
  "cp s = map of_char s"

text \<open>
  \<^verbatim>\<open>str.isspace\<close> for one code point: the code points CPython classifies as whitespace
  (the ASCII controls 9-13 and 28-31, space, NEL, NBSP and the Unicode space separators).
  \<^verbatim>\<open>str.split()\<close> and \<^verbatim>\<open>str.strip()\<close> use the same class.
\<close>

definition py_isspace :: "nat \<Rightarrow> bool" where
  "py_isspace c \<longleftrightarrow>
     (9 \<le> c \<and> c \<le> 13) \<or> (28 \<le> c \<and> c \<le> 32) \<or> c = 133 \<or> c = 160 \<or> c = 5760 \<or>
     (8192 \<le> c \<and> c \<le> 8202) \<or> c = 8232 \<or> c = 8233 \<or> c = 8239 \<or> c = 8287 \<or> c = 12288"

text \<open>\<^verbatim>\<open>s.strip()\<close>: leading and trailing whitespace removed.\<close>

definition py_strip :: "py_str \<Rightarrow> py_str" where
  "py_strip s = rev (dropWhile py_isspace (rev (dropWhile py_isspace s)))"

text \<open>
  \<^verbatim>\<open>s.split()\<close> with no separator: runs of whitespace separate the words and no empty
  word is produced. \<open>cur\<close> is the word being read.
\<close>

fun split_ws :: "py_str \<Rightarrow> py_str \<Rightarrow> py_str list" where
  "split_ws cur [] = (if cur = [] then [] else [cur])"
| "split_ws cur (c # cs) =
     (if py_isspace c then (if cur = [] then split_ws [] cs else cur # split_ws [] cs)
      else split_ws (cur @ [c]) cs)"

definition py_split :: "py_str \<Rightarrow> py_str list" where
  "py_split s = split_ws [] s"

text \<open>
  \<^verbatim>\<open>s.split(sep)\<close> for a separator string: the text is scanned from the left, every
  occurrence of \<open>sep\<close> ends a field, and empty fields are kept. Python raises
  \<^verbatim>\<open>ValueError\<close> for an empty separator; the program only passes the literals
  \<^verbatim>\<open>'\n'\<close> and \<^verbatim>\<open>'\n\n'\<close>, and the guard \<open>sep \<noteq> []\<close> keeps the
  recursion well founded.
\<close>

function split_sep :: "py_str \<Rightarrow> py_str \<Rightarrow> py_str \<Rightarrow> py_str list" where
  "split_sep sep cur [] = [cur]"
| "split_sep sep cur (c # cs) =
     (if sep \<noteq> [] \<and> take (length sep) (c # cs) = sep
      then cur # split_sep sep [] (drop (length sep) (c # cs))
      else split_sep sep (cur @ [c]) cs)"
  by pat_completeness auto
termination
  by (relation "measure (\<lambda>(sep, cur, s). length s)") auto

definition py_split_sep :: "py_str \<Rightarrow> py_str \<Rightarrow> py_str list" where
  "py_split_sep sep s = split_sep sep [] s"

text \<open>\<^verbatim>\<open>sep.join(xs)\<close>.\<close>

fun py_join :: "py_str \<Rightarrow> py_str list \<Rightarrow> py_str" where
  "py_join sep [] = []"
| "py_join sep [x] = x"
| "py_join sep (x # y # ys) = x @ sep @ py_join sep (y # ys)"

text \<open>\<^verbatim>\<open>str(n)\<close> for a non-negative integer: its decimal digits.\<close>

function str_nat :: "nat \<Rightarrow> py_str" where
  "str_nat n = (if n < 10 then [48 + n] else str_nat (n div 10) @ [48 + n mod 10])"
  by pat_completeness auto
termination
  by (relation "measure id") auto

declare str_nat.simps [simp del]

text \<open>
  The fields of a text between the characters of a class: a reference reading of
  "delimited by", used to state what the splitting functions compute.
\<close>

fun delimited_fields :: "(nat \<Rightarrow> bool) \<Rightarrow> py_str \<Rightarrow> py_str \<Rightarrow> py_str list" where
  "delimited_fields P cur [] = [cur]"
| "delimited_fields P cur (c # cs) =
     (if P c then cur # delimited_fields P [] cs else delimited_fields P (cur @ [c]) cs)"

text \<open>
  The blocks of a text between blank lines, read from the left: two newline characters
  in a row end a block, and any other character belongs to the block being read. This
  is a reference reading of "blank-line-delimited", written without the separator
  search of \<open>split_sep\<close>.
\<close>

fun blank_line_blocks :: "py_str \<Rightarrow> py_str \<Rightarrow> py_str list" where
  "blank_line_blocks cur [] = [cur]"
| "blank_line_blocks cur [c] = [cur @ [c]]"
| "blank_line_blocks cur (c # d # cs) =
     (if c = 10 \<and> d = 10 then cur # blank_line_blocks [] cs
      else blank_line_blocks (cur @ [c]) (d # cs))"

text \<open>
  The number a string of decimal digits denotes: the reference for \<open>str_nat\<close>.
\<close>

definition decimal_value :: "py_str \<Rightarrow> nat" where
  "decimal_value ds = foldl (\<lambda>n d. 10 * n + (d - 48)) 0 ds"

definition is_decimal :: "py_str \<Rightarrow> bool" where
  "is_decimal ds \<longleftrightarrow>
     ds \<noteq> [] \<and> list_all (\<lambda>d. 48 \<le> d \<and> d \<le> 57) ds \<and> (length ds = 1 \<or> hd ds \<noteq> 48)"

section \<open>The writing tools (agent.py)\<close>

subsection \<open>\<^verbatim>\<open>analyze_text_structure\<close>\<close>

text \<open>The dictionary \<^verbatim>\<open>analysis\<close>, with its keys in insertion order.\<close>

record analysis =
  word_count :: nat
  character_count :: nat
  line_count :: nat
  paragraph_count :: nat
  "structure" :: py_str

text \<open>
  \<^verbatim>\<open>json.dumps(analysis, indent=2)\<close> on that dictionary: one member per line, indented
  by two spaces, integers in decimal, the string in double quotes (it is one of two
  literals, so nothing is escaped).
\<close>

definition json_dumps_indent2 :: "analysis \<Rightarrow> py_str" where
  \<open>json_dumps_indent2 a =
     cp ''{\<newline>  "word_count": '' @ str_nat (word_count a) @
     cp '',\<newline>  "character_count": '' @ str_nat (character_count a) @
     cp '',\<newline>  "line_count": '' @ str_nat (line_count a) @
     cp '',\<newline>  "paragraph_count": '' @ str_nat (paragraph_count a) @
     cp '',\<newline>  "structure": "'' @ structure a @ cp ''"\<newline>}''\<close>

definition analyze_text_structure :: "py_str \<Rightarrow> py_str" where
  "analyze_text_structure text =
     (if py_strip text = [] then cp ''Empty text provided''
      else
        let lines = py_split_sep (cp ''\<newline>'') text;
            paragraphs = filter (\<lambda>p. py_strip p \<noteq> []) (py_split_sep (cp ''\<newline>\<newline>'') text);
            words = length (py_split text);
            chars = length text;
            analysis = \<lparr>word_count = words, character_count = chars,
                        line_count = length lines, paragraph_count = length paragraphs,
                        structure = (if length paragraphs > 1 then cp ''multi-paragraph''
                                     else cp ''single-block'')\<rparr>
        in cp ''Text Analysis: '' @ json_dumps_indent2 analysis)"

subsection \<open>\<^verbatim>\<open>extract_key_themes\<close>\<close>

text \<open>
  \<^verbatim>\<open>c.isalnum()\<close> and \<^verbatim>\<open>str.lower()\<close> consult the Unicode character database of
  the Python runtime, which is no part of the repository and differs between Python
  versions. The database is a parameter: \<open>db_isalnum\<close> is \<^verbatim>\<open>c.isalnum()\<close> for one
  character, \<open>db_lower\<close> is \<^verbatim>\<open>s.lower()\<close> for a string (lower-casing is not done
  character by character in general).
\<close>

record unicode_db =
  db_isalnum :: "nat \<Rightarrow> bool"
  db_lower :: "py_str \<Rightarrow> py_str"

definition common_words :: "py_str list" where
  "common_words = map cp
     [''the'', ''and'', ''or'', ''but'', ''in'', ''on'', ''at'', ''to'', ''for'', ''of'',
      ''with'', ''by'', ''a'', ''an'', ''is'', ''are'', ''was'', ''were'', ''be'', ''been'',
      ''have'', ''has'', ''had'', ''do'', ''does'', ''did'', ''will'', ''would'', ''could'',
      ''should'', ''may'', ''might'', ''can'', ''this'', ''that'', ''these'', ''those'']"

text \<open>
  \<^verbatim>\<open>word_freq\<close> is a dictionary, and a Python dictionary keeps its keys in insertion
  order: it is an association list, a new key goes to the end and an existing key
  keeps its place. \<open>dict_incr\<close> is
  \<^verbatim>\<open>word_freq[k] = word_freq.get(k, 0) + 1\<close>.
\<close>

type_synonym word_freq = "(py_str \<times> nat) list"

definition dict_incr :: "word_freq \<Rightarrow> py_str \<Rightarrow> word_freq" where
  "dict_incr d k =
     (case map_of d k of
        None \<Rightarrow> d @ [(k, 0 + 1)]
      | Some n \<Rightarrow> map (\<lambda>(k', v). if k' = k then (k', n + 1) else (k', v)) d)"

text \<open>The loop \<^verbatim>\<open>for word in words\<close>.\<close>

fun count_words :: "unicode_db \<Rightarrow> word_freq \<Rightarrow> py_str list \<Rightarrow> word_freq" where
  "count_words db freq [] = freq"
| "count_words db freq (word # words) =
     (let clean_word = filter (db_isalnum db) word
      in if length clean_word > 3 \<and> clean_word \<notin> set common_words
         then count_words db (dict_incr freq clean_word) words
         else count_words db freq words)"

text \<open>
  \<^verbatim>\<open>sorted(items, key=lambda x: x[1], reverse=True)\<close>: Python's sort is stable, also
  with \<^verbatim>\<open>reverse=True\<close>, so items with equal counts keep their order. \<open>sort_key\<close>
  is a stable sort; the descending order is the ascending order of the negated count.
\<close>

definition sorted_by_count_desc :: "word_freq \<Rightarrow> word_freq" where
  "sorted_by_count_desc items = sort_key (\<lambda>x. - int (snd x)) items"

text \<open>The counted words in sorted order, and the slice \<^verbatim>\<open>[:5]\<close> of them.\<close>

definition ranked_themes :: "unicode_db \<Rightarrow> py_str \<Rightarrow> word_freq" where
  "ranked_themes db text =
     sorted_by_count_desc (count_words db [] (py_split (db_lower db text)))"

definition top_themes :: "unicode_db \<Rightarrow> py_str \<Rightarrow> word_freq" where
  "top_themes db text = take 5 (ranked_themes db text)"

text \<open>
  The f-string prints a list of strings with \<^verbatim>\<open>repr\<close>. The themes consist of
  alphanumeric characters only, and \<^verbatim>\<open>repr\<close> of such a string is the string in
  single quotes: alphanumeric characters are printable, and neither a quote nor the
  backslash is alphanumeric.
\<close>

definition repr_str_list :: "py_str list \<Rightarrow> py_str" where
  "repr_str_list ws = cp ''['' @ py_join (cp '', '') (map (\<lambda>w. [39] @ w @ [39]) ws) @ cp '']''"

definition extract_key_themes :: "unicode_db \<Rightarrow> py_str \<Rightarrow> py_str" where
  "extract_key_themes db text =
     (if py_strip text = [] then cp ''No themes found in empty text''
      else cp ''Key themes identified: '' @ repr_str_list (map fst (top_themes db text)))"

text \<open>
  The reference the function is compared with. The stop words, as a set; the theme
  words of a text: the fields of the lower-cased text between whitespace characters
  that are not empty, each reduced to its alphanumeric characters, those kept that are
  longer than 3 and no stop word; and the order of the ranking: a word comes before
  another when it is more frequent, or as frequent and first seen earlier.
\<close>

definition stop_word_set :: "py_str set" where
  "stop_word_set =
     {cp ''the'', cp ''and'', cp ''or'', cp ''but'', cp ''in'', cp ''on'', cp ''at'', cp ''to'',
      cp ''for'', cp ''of'', cp ''with'', cp ''by'', cp ''a'', cp ''an'', cp ''is'', cp ''are'',
      cp ''was'', cp ''were'', cp ''be'', cp ''been'', cp ''have'', cp ''has'', cp ''had'',
      cp ''do'', cp ''does'', cp ''did'', cp ''will'', cp ''would'', cp ''could'', cp ''should'',
      cp ''may'', cp ''might'', cp ''can'', cp ''this'', cp ''that'', cp ''these'', cp ''those''}"

definition theme_words :: "unicode_db \<Rightarrow> py_str \<Rightarrow> py_str list" where
  "theme_words db text =
     filter (\<lambda>w. 3 < length w \<and> w \<notin> stop_word_set)
       (map (filter (db_isalnum db))
          (filter (\<lambda>w. w \<noteq> []) (delimited_fields py_isspace [] (db_lower db text))))"

definition first_index :: "'a list \<Rightarrow> 'a \<Rightarrow> nat" where
  "first_index xs x = length (takeWhile (\<lambda>y. y \<noteq> x) xs)"

definition first_occurrences :: "'a list \<Rightarrow> 'a list" where
  "first_occurrences xs = rev (remdups (rev xs))"

definition ranked_before :: "py_str list \<Rightarrow> py_str \<Rightarrow> py_str \<Rightarrow> bool" where
  "ranked_before ws a b \<longleftrightarrow>
     count_list ws b < count_list ws a \<or>
     (count_list ws a = count_list ws b \<and> first_index ws a < first_index ws b)"

text \<open>
  What every database of a Python runtime does on ASCII text: the ASCII letters and
  digits are the alphanumeric ASCII characters, and lower-casing an ASCII string maps
  \<^verbatim>\<open>A\<close> to \<^verbatim>\<open>Z\<close> to \<^verbatim>\<open>a\<close> to \<^verbatim>\<open>z\<close> and leaves the other characters.
  \<open>ascii_only_db\<close> is one database with this property, not CPython's: it knows no
  other letter. It serves where a concrete database is needed.
\<close>

definition ascii_isalnum :: "nat \<Rightarrow> bool" where
  "ascii_isalnum c \<longleftrightarrow>
     (48 \<le> c \<and> c \<le> 57) \<or> (65 \<le> c \<and> c \<le> 90) \<or> (97 \<le> c \<and> c \<le> 122)"

definition ascii_lower :: "py_str \<Rightarrow> py_str" where
  "ascii_lower s = map (\<lambda>c. if 65 \<le> c \<and> c \<le> 90 then c + 32 else c) s"

definition is_ascii :: "py_str \<Rightarrow> bool" where
  "is_ascii s \<longleftrightarrow> list_all (\<lambda>c. c < 128) s"

definition ascii_compatible :: "unicode_db \<Rightarrow> bool" where
  "ascii_compatible db \<longleftrightarrow>
     (\<forall>c. c < 128 \<longrightarrow> db_isalnum db c = ascii_isalnum c) \<and>
     (\<forall>s. is_ascii s \<longrightarrow> db_lower db s = ascii_lower s)"

definition ascii_only_db :: unicode_db where
  "ascii_only_db = \<lparr>db_isalnum = ascii_isalnum, db_lower = ascii_lower\<rparr>"

section \<open>The agent (agent.py)\<close>

subsection \<open>Messages and state\<close>

record tool_call =
  tc_name :: py_str
  tc_args :: "(py_str \<times> py_str) list"

datatype message =
    SystemMessage py_str
  | HumanMessage py_str
  | AIMessage py_str "tool_call list"
  | ToolMessage py_str

fun message_content :: "message \<Rightarrow> py_str" where
  "message_content (SystemMessage c) = c"
| "message_content (HumanMessage c) = c"
| "message_content (AIMessage c tcs) = c"
| "message_content (ToolMessage c) = c"

text \<open>\<^verbatim>\<open>isinstance(m, AIMessage)\<close>.\<close>

fun is_AIMessage :: "message \<Rightarrow> bool" where
  "is_AIMessage (AIMessage c tcs) = True"
| "is_AIMessage m = False"

text \<open>
  \<^verbatim>\<open>hasattr(m, 'tool_calls') and m.tool_calls\<close>: only an assistant message has the
  attribute, and a list is truthy when it is not empty.
\<close>

fun has_tool_calls :: "message \<Rightarrow> bool" where
  "has_tool_calls (AIMessage c tcs) = (tcs \<noteq> [])"
| "has_tool_calls m = False"

record writing_state =
  messages :: "message list"
  content :: py_str
  "context" :: "py_str \<rightharpoonup> py_str"
  action :: py_str
  iterations :: int
  max_iterations :: int

text \<open>
  A raised exception. \<open>PyException\<close> is an exception of any class with the text
  \<^verbatim>\<open>str(e)\<close> gives. \<open>GraphRecursionError\<close> is the exception of that name which
  LangGraph raises when a run is not over within the recursion limit; it carries the
  limit. Its text is the sentence LangGraph composes from the limit; releases of
  LangGraph that add a line with a link to their documentation differ in that line
  only, and no property below depends on the text.
\<close>

datatype py_exception = PyException py_str | GraphRecursionError nat

fun exc_str :: "py_exception \<Rightarrow> py_str" where
  "exc_str (PyException s) = s"
| \<open>exc_str (GraphRecursionError limit) =
     cp ''Recursion limit of '' @ str_nat limit @
     cp '' reached without hitting a stop condition. You can increase the limit by setting the `recursion_limit` config key.''\<close>

text \<open>
  The language model is an external service: \<^verbatim>\<open>llm.ainvoke(messages)\<close> returns a
  message or raises, and what it answers may differ from call to call. It is a function
  of the message list and of a state \<open>'o\<close> of the service that each call may change.
  \<^verbatim>\<open>self.llm\<close> is \<open>None\<close> when no API key is configured.
\<close>

type_synonym 'o llm = "'o \<Rightarrow> message list \<Rightarrow> (py_exception + message) \<times> 'o"

subsection \<open>Prompts\<close>

definition generate_system_prompt :: py_str where
  \<open>generate_system_prompt =
     cp ''You are an expert writing assistant. When asked to generate text, provide '' @
     cp ''ONLY the clean, well-written content that should be inserted directly '' @
     cp ''into the document. \<newline>'' @
     cp ''\<newline>'' @
     cp ''DO NOT include:\<newline>'' @
     cp ''- Explanatory text like "Here's a draft" or "Based on your prompt"\<newline>'' @
     cp ''- Meta-commentary about the writing process\<newline>'' @
     cp ''- Markdown headers or formatting (the editor will handle formatting)\<newline>'' @
     cp ''- References to the prompt or instructions\<newline>'' @
     cp ''\<newline>'' @
     cp ''DO provide:\<newline>'' @
     cp ''- Clean, polished prose that directly fulfills the request\<newline>'' @
     cp ''- Natural paragraph breaks using double line breaks\<newline>'' @
     cp ''- Content that flows seamlessly as if written by the user\<newline>'' @
     cp ''\<newline>'' @
     cp ''Available tools:\<newline>'' @
     cp ''- analyze_text_structure: Analyze text structure and organization\<newline>'' @
     cp ''- suggest_improvements: Get specific improvement suggestions  \<newline>'' @
     cp ''- extract_key_themes: Identify key themes and topics\<newline>'' @
     cp ''\<newline>'' @
     cp ''Focus on producing clean, insertable content only.''\<close>

definition edit_system_prompt :: py_str where
  \<open>edit_system_prompt =
     cp ''You are an expert editor. Help users improve and refine their existing '' @
     cp ''text.\<newline>'' @
     cp ''                \<newline>'' @
     cp ''Available tools:\<newline>'' @
     cp ''- analyze_text_structure: Analyze current text structure\<newline>'' @
     cp ''- suggest_improvements: Get targeted improvement suggestions\<newline>'' @
     cp ''- extract_key_themes: Understand content themes\<newline>'' @
     cp ''\<newline>'' @
     cp ''Focus on clarity, coherence, and effective communication. Format your '' @
     cp ''responses using markdown for better readability.''\<close>

definition improve_system_prompt :: py_str where
  \<open>improve_system_prompt =
     cp ''You are an expert writing improvement specialist. When asked to improve '' @
     cp ''text, provide ONLY the improved version of the content that should replace '' @
     cp ''the original text in the document.\<newline>'' @
     cp ''\<newline>'' @
     cp ''DO NOT include:\<newline>'' @
     cp ''- Explanatory text about what you changed or why\<newline>'' @
     cp ''- Meta-commentary about the improvement process\<newline>'' @
     cp ''- Markdown headers or formatting (the editor will handle formatting)\<newline>'' @
     cp ''- Analysis or suggestions - just the improved content\<newline>'' @
     cp ''\<newline>'' @
     cp ''DO provide:\<newline>'' @
     cp ''- Clean, polished prose that improves upon the original\<newline>'' @
     cp ''- Natural paragraph breaks using double line breaks\<newline>'' @
     cp ''- Content that flows seamlessly as if written by the user\<newline>'' @
     cp ''- Enhanced clarity, engagement, and readability\<newline>'' @
     cp ''\<newline>'' @
     cp ''Available tools:\<newline>'' @
     cp ''- analyze_text_structure: Analyze text structure and organization\<newline>'' @
     cp ''- suggest_improvements: Get specific improvement suggestions  \<newline>'' @
     cp ''- extract_key_themes: Identify key themes and topics\<newline>'' @
     cp ''\<newline>'' @
     cp ''Focus on producing clean, improved content only.''\<close>

definition system_prompts :: "(py_str \<times> py_str) list" where
  "system_prompts =
     [(cp ''generate'', generate_system_prompt),
      (cp ''edit'', edit_system_prompt),
      (cp ''improve'', improve_system_prompt)]"

text \<open>\<^verbatim>\<open>system_prompts.get(action, system_prompts["generate"])\<close>.\<close>

definition system_prompt_for :: "py_str \<Rightarrow> py_str" where
  "system_prompt_for act =
     (case map_of system_prompts act of Some p \<Rightarrow> p | None \<Rightarrow> generate_system_prompt)"

text \<open>
  \<^verbatim>\<open>if context.get(key): user_message += label + context[key]\<close>: the value is
  appended when the key is present and its value is not empty.
\<close>

definition append_context :: "(py_str \<rightharpoonup> py_str) \<Rightarrow> py_str \<Rightarrow> py_str \<Rightarrow> py_str \<Rightarrow> py_str" where
  "append_context ctx key label user_message =
     (case ctx key of
        None \<Rightarrow> user_message
      | Some v \<Rightarrow> if v \<noteq> [] then user_message @ label @ v else user_message)"

text \<open>The \<^verbatim>\<open>if action == "generate" ... elif action == "edit" ... else\<close> chain.\<close>

definition user_message_for :: "py_str \<Rightarrow> py_str \<Rightarrow> (py_str \<rightharpoonup> py_str) \<Rightarrow> py_str" where
  "user_message_for act txt ctx =
     (if act = cp ''generate'' then
        append_context ctx (cp ''length'') (cp ''\<newline>**Length:** '')
          (append_context ctx (cp ''style'') (cp ''\<newline>\<newline>**Style:** '')
            (cp ''Please help me generate text based on this prompt: '' @ txt))
      else if act = cp ''edit'' then
        append_context ctx (cp ''focus'') (cp ''\<newline>\<newline>**Focus on:** '')
          (cp ''Please help me edit and improve this text:\<newline>\<newline>'' @ txt)
      else
        append_context ctx (cp ''aspect'') (cp ''\<newline>\<newline>**Specific aspect:** '')
          (cp ''Please help me improve this text:\<newline>\<newline>'' @ txt))"

text \<open>The messages the model is called with: built when the state has none.\<close>

definition conversation :: "writing_state \<Rightarrow> message list" where
  "conversation st =
     (if messages st = [] then
        [SystemMessage (system_prompt_for (action st)),
         HumanMessage (user_message_for (action st) (content st) (context st))]
      else messages st)"

subsection \<open>Mock responses (no API key)\<close>

definition mock_generate :: py_str where
  \<open>mock_generate =
     cp ''This is a well-crafted piece of writing that demonstrates the capabilities '' @
     cp ''of the AI writing assistant. The content flows naturally and provides '' @
     cp ''valuable information while maintaining an engaging tone throughout.\<newline>'' @
     cp ''\<newline>'' @
     cp ''The writing assistant can adapt to various styles and requirements, ensuring '' @
     cp ''that the generated content meets your specific needs. Whether you're looking '' @
     cp ''for formal academic writing, casual blog posts, or creative storytelling, '' @
     cp ''the system can produce high-quality content.\<newline>'' @
     cp ''\<newline>'' @
     cp ''This example showcases clean, insertable text that integrates seamlessly '' @
     cp ''into your document without requiring additional formatting or editing.''\<close>

definition mock_improve :: py_str where
  \<open>mock_improve =
     cp ''This represents a significantly enhanced version of your original text, '' @
     cp ''featuring improved clarity, better flow, and more engaging language throughout. '' @
     cp ''The content has been carefully refined to maintain your core message while '' @
     cp ''elevating the overall quality and readability.\<newline>'' @
     cp ''\<newline>'' @
     cp ''The enhanced writing demonstrates stronger transitions between ideas, '' @
     cp ''more precise word choices, and a more compelling narrative structure. '' @
     cp ''Each sentence contributes meaningfully to the overall piece while maintaining '' @
     cp ''consistency in tone and style.\<newline>'' @
     cp ''\<newline>'' @
     cp ''This improved version showcases the writing assistant's ability to transform '' @
     cp ''good content into exceptional prose that resonates more effectively with '' @
     cp ''readers and achieves your communication objectives.''\<close>

definition mock_response :: "py_str \<Rightarrow> py_str" where
  "mock_response act =
     (if act = cp ''generate'' then mock_generate
      else if act = cp ''improve'' then mock_improve
      else
        cp ''**Mock Response for '' @ act @
        cp ''**\<newline>'' @
        cp ''\<newline>'' @
        cp ''This is a simulated writing assistant response with *proper markdown formatting* '' @
        cp ''for development purposes.\<newline>'' @
        cp ''\<newline>'' @
        cp ''### Key Features\<newline>'' @
        cp ''- '' @
        [9989] @
        cp '' Proper message structure\<newline>'' @
        cp ''- '' @
        [9989] @
        cp '' Markdown formatting\<newline>'' @
        cp ''- '' @
        [9989] @
        cp '' SystemMessage usage\<newline>'' @
        cp ''\<newline>'' @
        cp ''> This demonstrates how responses will be formatted when the API is configured.'')"

subsection \<open>The graph: \<^verbatim>\<open>agent_node\<close>, \<^verbatim>\<open>should_continue\<close>, the tool node\<close>

text \<open>
  What a node returns: the agent node returns \<^verbatim>\<open>messages\<close> and
  \<^verbatim>\<open>iterations\<close>, the tool node returns \<^verbatim>\<open>messages\<close> only. The graph writes
  the returned keys into the state.
\<close>

datatype node_output =
    AgentOutput "message list" int
  | ToolsOutput "message list"



fun apply_output :: "writing_state \<Rightarrow> node_output \<Rightarrow> writing_state" where
  "apply_output st (AgentOutput msgs its) = st\<lparr>messages := msgs, iterations := its\<rparr>"
| "apply_output st (ToolsOutput msgs) = st\<lparr>messages := msgs\<rparr>"

text \<open>
  \<^verbatim>\<open>agent_node\<close>. The body is one \<^verbatim>\<open>try\<close> block; the only call in it that can
  raise is \<^verbatim>\<open>llm.ainvoke\<close>, and then \<^verbatim>\<open>messages\<close> and \<^verbatim>\<open>iterations\<close>
  are already bound, so the handler returns the messages with an error entry appended.
  The result is a sum so that a raised exception would be the value \<open>Inl\<close>.
\<close>

definition agent_node ::
  "'o llm option \<Rightarrow> 'o \<Rightarrow> writing_state \<Rightarrow> (py_exception + node_output) \<times> 'o" where
  "agent_node model oracle st =
     (let msgs = conversation st; its = iterations st in
      case model of
        Some invoke \<Rightarrow>
          (case invoke oracle msgs of
             (Inr response, oracle') \<Rightarrow> (Inr (AgentOutput (msgs @ [response]) (its + 1)), oracle')
           | (Inl e, oracle') \<Rightarrow>
               (Inr (AgentOutput
                  (msgs @ [AIMessage (cp ''I encountered an error: '' @ exc_str e) []])
                  (its + 1)), oracle'))
      | None \<Rightarrow>
          (Inr (AgentOutput (msgs @ [AIMessage (mock_response (action st)) []]) (its + 1)),
           oracle))"

definition should_continue :: "writing_state \<Rightarrow> py_str" where
  "should_continue st =
     (if iterations st \<ge> max_iterations st then cp ''end''
      else if messages st \<noteq> [] \<and> has_tool_calls (last (messages st)) then cp ''continue''
      else cp ''end'')"

text \<open>
  The tool node is LangGraph's \<^verbatim>\<open>ToolNode(tools)\<close>, library code: it reads the state
  and returns the new value of \<^verbatim>\<open>messages\<close>, or raises. It is a parameter.
\<close>

type_synonym tool_node = "writing_state \<Rightarrow> py_exception + message list"

text \<open>
  The compiled graph, as \<^verbatim>\<open>_initialize_agent\<close> wires it: the entry point is the agent
  node; after the agent node \<^verbatim>\<open>should_continue\<close> chooses the tool node
  (\<^verbatim>\<open>"continue"\<close>) or the end; after the tool node the agent node runs again.

  LangGraph runs the graph in steps, one node per step here, and counts them. Before
  each step it first compares the number of steps done with the recursion limit of the
  run, and only then looks whether a node is due: when more than \<open>limit\<close> steps are
  done it raises \<^verbatim>\<open>GraphRecursionError\<close>, also when no node is due any more. So a
  run that needs at most \<open>limit\<close> steps ends normally, and any other run is stopped
  by the exception once \<open>limit + 1\<close> steps are done.

  \<open>graph_steps limit left\<close> is the loop with \<open>left\<close> steps left before the exception;
  it starts at the agent node. Its value is the outputs of the nodes in the order they
  ran, each with the state after it, and the exception that ended the run, if any.
\<close>

function graph_steps ::
  "nat \<Rightarrow> nat \<Rightarrow> 'o llm option \<Rightarrow> tool_node \<Rightarrow> 'o \<Rightarrow> writing_state \<Rightarrow>
     (node_output \<times> writing_state) list \<times> py_exception option" where
  "graph_steps limit left model tools oracle st =
     (if left = 0 then ([], Some (GraphRecursionError limit))
      else
        (case agent_node model oracle st of
           (Inl e, oracle') \<Rightarrow> ([], Some e)
         | (Inr out, oracle') \<Rightarrow>
             (let st' = apply_output st out in
              if left = 1 then ([(out, st')], Some (GraphRecursionError limit))
              else if should_continue st' = cp ''continue'' then
                (case tools st' of
                   Inl e \<Rightarrow> ([(out, st')], Some e)
                 | Inr msgs \<Rightarrow>
                     (let st'' = apply_output st' (ToolsOutput msgs);
                          rest = graph_steps limit (left - 2) model tools oracle' st''
                      in ((out, st') # (ToolsOutput msgs, st'') # fst rest, snd rest)))
              else ([(out, st')], None))))"
  by pat_completeness auto
termination
  by (relation "measure (\<lambda>(limit, left, model, tools, oracle, st). left)") auto

declare graph_steps.simps [simp del]

text \<open>
  \<open>astream limit\<close> is \<^verbatim>\<open>graph.astream(state)\<close> with the recursion limit \<open>limit\<close>.
  The limit is part of the configuration of a run, and 25 when the configuration does
  not set it; agent.py calls \<^verbatim>\<open>self.graph.astream(initial_state)\<close> with no
  configuration.
\<close>

definition astream ::
  "nat \<Rightarrow> 'o llm option \<Rightarrow> tool_node \<Rightarrow> 'o \<Rightarrow> writing_state \<Rightarrow>
     (node_output \<times> writing_state) list \<times> py_exception option" where
  "astream limit model tools oracle st = graph_steps limit (limit + 1) model tools oracle st"

definition default_recursion_limit :: nat where
  "default_recursion_limit = 25"



subsection \<open>The streaming generators\<close>

text \<open>
  \<^verbatim>\<open>self.graph\<close> is the compiled graph, or \<open>None\<close> when \<^verbatim>\<open>_initialize_agent\<close>
  failed; of the graph only the tool node is not fixed by this file.
\<close>

record 'o writing_agent =
  llm :: "'o llm option"
  graph :: "tool_node option"

definition is_ready :: "'o writing_agent \<Rightarrow> bool" where
  "is_ready agent \<longleftrightarrow> graph agent \<noteq> None"

text \<open>
  An asynchronous generator that has run to its end: the values it yielded, in order,
  and the exception it raised instead of finishing, if any.
\<close>

type_synonym generator = "py_str list \<times> py_exception option"

text \<open>
  The body of \<^verbatim>\<open>for node_name, node_output in output.items()\<close>: the fragments
  yielded for one output of the graph. \<open>word_fragments\<close> is its innermost part,
  \<^verbatim>\<open>if content: for word in content.split(): yield word + " "\<close>.
\<close>

definition word_fragments :: "py_str \<Rightarrow> py_str list" where
  "word_fragments text =
     (if text \<noteq> [] then map (\<lambda>word. word @ cp '' '') (py_split text) else [])"

fun output_fragments :: "node_output \<Rightarrow> py_str list" where
  "output_fragments (AgentOutput msgs its) =
     (if msgs \<noteq> [] \<and> is_AIMessage (last msgs)
      then word_fragments (message_content (last msgs)) else [])"
| "output_fragments (ToolsOutput msgs) = []"

text \<open>
  \<^verbatim>\<open>generate_text\<close>, \<^verbatim>\<open>edit_text\<close> and \<^verbatim>\<open>improve_text\<close> are the same code but
  for the action and the text of the error fragment; \<open>stream_action\<close> is their common
  body. \<^verbatim>\<open>self.graph.astream\<close> raises \<^verbatim>\<open>AttributeError\<close> when the graph is
  \<open>None\<close>. The handler \<^verbatim>\<open>except Exception\<close> yields one more fragment, and the
  generator finishes normally.
\<close>

definition attribute_error :: py_exception where
  "attribute_error =
     PyException ([39] @ cp ''NoneType'' @ [39] @ cp '' object has no attribute '' @
                  [39] @ cp ''astream'' @ [39])"

definition graph_astream ::
  "'o writing_agent \<Rightarrow> 'o \<Rightarrow> writing_state \<Rightarrow>
     (node_output \<times> writing_state) list \<times> py_exception option" where
  "graph_astream agent oracle st =
     (case graph agent of
        None \<Rightarrow> ([], Some attribute_error)
      | Some tools \<Rightarrow> astream default_recursion_limit (llm agent) tools oracle st)"

definition initial_state :: "py_str \<Rightarrow> py_str \<Rightarrow> (py_str \<rightharpoonup> py_str) option \<Rightarrow> writing_state" where
  "initial_state act txt ctx =
     \<lparr>messages = [], content = txt,
      context = (case ctx of None \<Rightarrow> Map.empty | Some c \<Rightarrow> c),
      action = act, iterations = 0, max_iterations = 3\<rparr>"

definition stream_action ::
  "'o writing_agent \<Rightarrow> 'o \<Rightarrow> py_str \<Rightarrow> py_str \<Rightarrow> py_str \<Rightarrow> (py_str \<rightharpoonup> py_str) option \<Rightarrow>
     generator" where
  "stream_action agent oracle act error_prefix txt ctx =
     (let run = graph_astream agent oracle (initial_state act txt ctx);
          yielded = concat (map (\<lambda>(out, st). output_fragments out) (fst run))
      in case snd run of
           None \<Rightarrow> (yielded, None)
         | Some e \<Rightarrow> (yielded @ [error_prefix @ exc_str e], None))"

definition generate_text ::
  "'o writing_agent \<Rightarrow> 'o \<Rightarrow> py_str \<Rightarrow> (py_str \<rightharpoonup> py_str) option \<Rightarrow> generator" where
  "generate_text agent oracle prompt ctx =
     stream_action agent oracle (cp ''generate'') (cp ''Error generating text: '') prompt ctx"

definition edit_text ::
  "'o writing_agent \<Rightarrow> 'o \<Rightarrow> py_str \<Rightarrow> (py_str \<rightharpoonup> py_str) option \<Rightarrow> generator" where
  "edit_text agent oracle txt ctx =
     stream_action agent oracle (cp ''edit'') (cp ''Error editing text: '') txt ctx"

definition improve_text ::
  "'o writing_agent \<Rightarrow> 'o \<Rightarrow> py_str \<Rightarrow> (py_str \<rightharpoonup> py_str) option \<Rightarrow> generator" where
  "improve_text agent oracle txt ctx =
     stream_action agent oracle (cp ''improve'') (cp ''Error improving text: '') txt ctx"

section \<open>The event stream (main.py)\<close>

text \<open>
  \<^verbatim>\<open>str.title()\<close> on ASCII text: the first letter of each run of letters in upper
  case, the others in lower case. \<^verbatim>\<open>create_sse_stream\<close> is called with the literals
  \<^verbatim>\<open>"generation"\<close>, \<^verbatim>\<open>"edit"\<close> and \<^verbatim>\<open>"improve"\<close>.
\<close>

fun title_from :: "bool \<Rightarrow> py_str \<Rightarrow> py_str" where
  "title_from after_letter [] = []"
| "title_from after_letter (c # cs) =
     (if 97 \<le> c \<and> c \<le> 122 then (if after_letter then c else c - 32) # title_from True cs
      else if 65 \<le> c \<and> c \<le> 90 then (if after_letter then c + 32 else c) # title_from True cs
      else c # title_from False cs)"

definition py_title :: "py_str \<Rightarrow> py_str" where
  "py_title s = title_from False s"

text \<open>
  Every string \<^verbatim>\<open>create_sse_stream\<close> yields is
  \<^verbatim>\<open>"data: " + json.dumps(event) + "\n\n"\<close> for a dictionary \<^verbatim>\<open>event\<close> of two
  string members. The model lists the dictionaries, in the order they are yielded.
\<close>

type_synonym sse_event = "(py_str \<times> py_str) list"

text \<open>The four dictionaries of \<^verbatim>\<open>create_sse_stream\<close>.\<close>

definition start_event :: "py_str \<Rightarrow> sse_event" where
  "start_event action_type =
     [(cp ''type'', action_type @ cp ''_start''),
      (cp ''message'', cp ''Starting '' @ action_type @ cp ''...'')]"

definition chunk_event :: "py_str \<Rightarrow> py_str \<Rightarrow> sse_event" where
  "chunk_event action_type chunk =
     [(cp ''type'', action_type @ cp ''_chunk''), (cp ''content'', chunk)]"

definition complete_event :: "py_str \<Rightarrow> sse_event" where
  "complete_event action_type =
     [(cp ''type'', action_type @ cp ''_complete''),
      (cp ''message'', py_title action_type @ cp '' completed'')]"

definition error_event :: "py_str \<Rightarrow> py_exception \<Rightarrow> sse_event" where
  "error_event action_type e =
     [(cp ''type'', cp ''error''),
      (cp ''message'', py_title action_type @ cp '' failed: '' @ exc_str e)]"

text \<open>
  The start event is yielded first; then, for each value the generator yields, a chunk
  event \<^verbatim>\<open>if chunk\<close>, that is when the value is not empty; then the complete
  event when the generator is exhausted, or the error event of the handler when the
  generator raised.
\<close>

definition create_sse_stream :: "generator \<Rightarrow> py_str \<Rightarrow> sse_event list" where
  "create_sse_stream gen action_type =
     start_event action_type #
     map (chunk_event action_type) (filter (\<lambda>chunk. chunk \<noteq> []) (fst gen)) @
     [case snd gen of
        None \<Rightarrow> complete_event action_type
      | Some e \<Rightarrow> error_event action_type e]"

text \<open>The three routes; \<^verbatim>\<open>request.context or {}\<close> replaces a missing context.\<close>

definition api_generate ::
  "'o writing_agent \<Rightarrow> 'o \<Rightarrow> py_str \<Rightarrow> (py_str \<rightharpoonup> py_str) option \<Rightarrow> sse_event list" where
  "api_generate agent oracle prompt ctx =
     create_sse_stream
       (generate_text agent oracle prompt
          (Some (case ctx of None \<Rightarrow> Map.empty | Some c \<Rightarrow> c)))
       (cp ''generation'')"

definition api_edit ::
  "'o writing_agent \<Rightarrow> 'o \<Rightarrow> py_str \<Rightarrow> (py_str \<rightharpoonup> py_str) option \<Rightarrow> sse_event list" where
  "api_edit agent oracle txt ctx =
     create_sse_stream
       (edit_text agent oracle txt (Some (case ctx of None \<Rightarrow> Map.empty | Some c \<Rightarrow> c)))
       (cp ''edit'')"

definition api_improve ::
  "'o writing_agent \<Rightarrow> 'o \<Rightarrow> py_str \<Rightarrow> (py_str \<rightharpoonup> py_str) option \<Rightarrow> sse_event list" where
  "api_improve agent oracle txt ctx =
     create_sse_stream
       (improve_text agent oracle txt (Some (case ctx of None \<Rightarrow> Map.empty | Some c \<Rightarrow> c)))
       (cp ''improve'')"

text \<open>Reading an event: its type, and the classes of events the interface names.\<close>

definition event_type :: "sse_event \<Rightarrow> py_str" where
  "event_type ev = (case map_of ev (cp ''type'') of Some t \<Rightarrow> t | None \<Rightarrow> [])"

definition event_content :: "sse_event \<Rightarrow> py_str" where
  "event_content ev = (case map_of ev (cp ''content'') of Some t \<Rightarrow> t | None \<Rightarrow> [])"

definition is_start :: "py_str \<Rightarrow> sse_event \<Rightarrow> bool" where
  "is_start action_type ev \<longleftrightarrow> event_type ev = action_type @ cp ''_start''"

definition is_chunk :: "py_str \<Rightarrow> sse_event \<Rightarrow> bool" where
  "is_chunk action_type ev \<longleftrightarrow> event_type ev = action_type @ cp ''_chunk''"

definition is_complete :: "py_str \<Rightarrow> sse_event \<Rightarrow> bool" where
  "is_complete action_type ev \<longleftrightarrow> event_type ev = action_type @ cp ''_complete''"

definition is_error :: "sse_event \<Rightarrow> bool" where
  "is_error ev \<longleftrightarrow> event_type ev = cp ''error''"

definition is_terminal :: "py_str \<Rightarrow> sse_event \<Rightarrow> bool" where
  "is_terminal action_type ev \<longleftrightarrow> is_complete action_type ev \<or> is_error ev"

text \<open>The event that ends a stream.\<close>

definition terminal_event :: "py_str \<Rightarrow> py_exception option \<Rightarrow> sse_event" where
  "terminal_event action_type raised =
     (case raised of
        None \<Rightarrow> complete_event action_type
      | Some e \<Rightarrow> error_event action_type e)"

text \<open>
  The shape of a fragment made from a word: a non-empty run of characters that are not
  whitespace, followed by one space.
\<close>

definition is_word_fragment :: "py_str \<Rightarrow> bool" where
  "is_word_fragment f \<longleftrightarrow>
     f \<noteq> [] \<and> last f = 32 \<and> butlast f \<noteq> [] \<and> list_all (\<lambda>c. \<not> py_isspace c) (butlast f)"

text \<open>
  What a generator of the agent can yield: word fragments only, or word fragments and
  then, last, the text of its exception handler; and it finishes without raising.
\<close>

definition generator_fragments_ok :: "py_str \<Rightarrow> generator \<Rightarrow> bool" where
  "generator_fragments_ok error_prefix gen \<longleftrightarrow>
     snd gen = None \<and>
     (list_all is_word_fragment (fst gen) \<or>
      (fst gen \<noteq> [] \<and> list_all is_word_fragment (butlast (fst gen)) \<and>
       take (length error_prefix) (last (fst gen)) = error_prefix))"

section \<open>Concrete inputs\<close>

text \<open>
  A state as the generators build it, with the bound as a parameter; a model that always
  asks for a tool; a model whose call always raises; a tool node that appends a tool
  result whatever the state.
\<close>

definition start_state :: "int \<Rightarrow> writing_state" where
  "start_state n =
     \<lparr>messages = [], content = cp ''x'', context = Map.empty, action = cp ''generate'',
      iterations = 0, max_iterations = n\<rparr>"


definition failing_llm :: "unit llm" where
  "failing_llm oracle msgs = (Inl (PyException (cp ''boom'')), oracle)"

definition appending_tools :: tool_node where
  "appending_tools st = Inr (messages st @ [ToolMessage (cp ''Empty text provided'')])"


text \<open>
  An agent with a model whose call raises, and an agent whose graph is \<open>None\<close>
  because its initialisation failed.
\<close>

definition failing_model_agent :: "unit writing_agent" where
  "failing_model_agent = \<lparr>llm = Some failing_llm, graph = Some appending_tools\<rparr>"

definition uninitialized_agent :: "unit writing_agent" where
  "uninitialized_agent = \<lparr>llm = None, graph = None\<rparr>"

section \<open>Properties of the text primitives\<close>

lemma all_dropWhile_iff: "(\<forall>x\<in>set (dropWhile P s). P x) \<longleftrightarrow> (\<forall>x\<in>set s. P x)"
proof
  assume a: "\<forall>x\<in>set (dropWhile P s). P x"
  show "\<forall>x\<in>set s. P x"
  proof (rule ccontr)
    assume "\<not> (\<forall>x\<in>set s. P x)"
    then have ne: "dropWhile P s \<noteq> []" by (simp add: dropWhile_eq_Nil_conv)
    then have "\<not> P (hd (dropWhile P s))" by (rule hd_dropWhile)
    moreover have "hd (dropWhile P s) \<in> set (dropWhile P s)" using ne by simp
    ultimately show False using a by blast
  qed
next
  assume "\<forall>x\<in>set s. P x"
  then show "\<forall>x\<in>set (dropWhile P s). P x" by (auto dest: set_dropWhileD)
qed

lemma py_strip_empty: "py_strip s = [] \<longleftrightarrow> list_all py_isspace s"
  by (simp add: py_strip_def dropWhile_eq_Nil_conv all_dropWhile_iff list_all_iff)

lemma split_ws_fields:
  "split_ws cur s = filter (\<lambda>w. w \<noteq> []) (delimited_fields py_isspace cur s)"
  by (induction s arbitrary: cur) auto

lemma py_split_fields:
  "py_split s = filter (\<lambda>w. w \<noteq> []) (delimited_fields py_isspace [] s)"
  by (simp add: py_split_def split_ws_fields)

lemma split_sep_single: "split_sep [c] cur s = delimited_fields (\<lambda>x. x = c) cur s"
  by (induction s arbitrary: cur) auto

lemma py_split_sep_newline:
  "py_split_sep (cp ''\<newline>'') s = delimited_fields (\<lambda>c. c = 10) [] s"
  by (simp add: py_split_sep_def cp_def split_sep_single)

lemma length_delimited_fields:
  "length (delimited_fields P cur s) = Suc (length (filter P s))"
  by (induction s arbitrary: cur) auto

lemma split_sep_not_Nil: "split_sep sep cur s \<noteq> []"
  by (induction sep cur s rule: split_sep.induct) auto

lemma py_join_Cons: "rest \<noteq> [] \<Longrightarrow> py_join sep (x # rest) = x @ sep @ py_join sep rest"
  by (cases rest) auto

lemma py_join_split_sep: "py_join sep (split_sep sep cur s) = cur @ s"
proof (induction sep cur s rule: split_sep.induct)
  case (1 sep cur)
  then show ?case by simp
next
  case (2 sep cur c cs)
  show ?case
  proof (cases "sep \<noteq> [] \<and> take (length sep) (c # cs) = sep")
    case True
    then have "py_join sep (split_sep sep cur (c # cs)) =
        cur @ sep @ py_join sep (split_sep sep [] (drop (length sep) (c # cs)))"
      by (simp add: py_join_Cons split_sep_not_Nil)
    also have "\<dots> = cur @ take (length sep) (c # cs) @ drop (length sep) (c # cs)"
      using True 2 by simp
    finally show ?thesis by simp
  next
    case False
    then show ?thesis using 2 by auto
  qed
qed

section \<open>Properties of \<^verbatim>\<open>analyze_text_structure\<close>\<close>

lemma split_sep_blank_line: "split_sep [10, 10] cur s = blank_line_blocks cur s"
  by (induction cur s rule: blank_line_blocks.induct) auto

lemma py_split_sep_blank_line:
  "py_split_sep (cp ''\<newline>\<newline>'') s = blank_line_blocks [] s"
  by (simp add: py_split_sep_def cp_def split_sep_blank_line)

lemma py_join_blank_line_blocks: "py_join [10, 10] (blank_line_blocks [] s) = s"
  using py_join_split_sep [of "[10, 10]" "[]" s] by (simp add: split_sep_blank_line)

lemma str_nat_digit: "n < 10 \<Longrightarrow> str_nat n = [48 + n]"
  by (simp add: str_nat.simps)

lemma str_nat_step: "10 \<le> n \<Longrightarrow> str_nat n = str_nat (n div 10) @ [48 + n mod 10]"
  by (subst str_nat.simps) simp

lemma str_nat_not_Nil: "str_nat n \<noteq> []"
  by (subst str_nat.simps) simp

lemma decimal_value_snoc: "decimal_value (ds @ [d]) = 10 * decimal_value ds + (d - 48)"
  by (simp add: decimal_value_def)

lemma decimal_value_str_nat: "decimal_value (str_nat n) = n"
proof (induction n rule: str_nat.induct)
  case (1 n)
  show ?case
  proof (cases "n < 10")
    case True
    then show ?thesis by (simp add: str_nat_digit decimal_value_def)
  next
    case False
    then have "decimal_value (str_nat n) = 10 * (n div 10) + n mod 10"
      using 1 by (simp add: str_nat_step decimal_value_snoc)
    then show ?thesis by simp
  qed
qed

lemma str_nat_digits: "list_all (\<lambda>d. 48 \<le> d \<and> d \<le> 57) (str_nat n)"
proof (induction n rule: str_nat.induct)
  case (1 n)
  show ?case
  proof (cases "n < 10")
    case True
    then show ?thesis by (simp add: str_nat_digit)
  next
    case False
    have "n mod 10 < 10" by simp
    then have "48 + n mod 10 \<le> 57" by linarith
    then show ?thesis using 1 False by (simp add: str_nat_step)
  qed
qed

lemma str_nat_leading: "0 < n \<Longrightarrow> 48 < hd (str_nat n)"
proof (induction n rule: str_nat.induct)
  case (1 n)
  show ?case
  proof (cases "n < 10")
    case True
    then show ?thesis using "1.prems" by (simp add: str_nat_digit)
  next
    case False
    then have "0 < n div 10" by simp
    then have "48 < hd (str_nat (n div 10))" using 1 False by simp
    then show ?thesis using False by (simp add: str_nat_step str_nat_not_Nil)
  qed
qed

lemma is_decimal_str_nat: "is_decimal (str_nat n)"
proof (cases "n < 10")
  case True
  then show ?thesis by (simp add: is_decimal_def str_nat_digit)
next
  case False
  then have "48 < hd (str_nat n)" by (simp add: str_nat_leading)
  then show ?thesis by (simp add: is_decimal_def str_nat_not_Nil str_nat_digits)
qed

lemma analyze_example:
  \<open>analyze_text_structure (cp ''a\<newline>\<newline>b'') =
     cp ''Text Analysis: {\<newline>  "word_count": 2,\<newline>  "character_count": 4,\<newline>  "line_count": 3,\<newline>  "paragraph_count": 2,\<newline>  "structure": "multi-paragraph"\<newline>}''\<close>
  by (simp add: analyze_text_structure_def cp_def py_strip_def py_isspace_def py_split_sep_def
        py_split_def json_dumps_indent2_def str_nat.simps)

lemma analyze_example_blocks:
  \<open>analyze_text_structure
     (cp ''one two'' @ [9] @
      cp ''three\<newline>four five six\<newline>\<newline>\<newline>seven eight nine\<newline>\<newline> '' @ [9] @
      cp ''\<newline>\<newline>ten eleven'') =
     cp ''Text Analysis: {\<newline>  "word_count": 11,\<newline>  "character_count": 62,\<newline>  "line_count": 9,\<newline>  "paragraph_count": 3,\<newline>  "structure": "multi-paragraph"\<newline>}''\<close>
  by (simp add: analyze_text_structure_def cp_def py_strip_def py_isspace_def py_split_sep_def
        py_split_def json_dumps_indent2_def str_nat.simps)

lemma analyze_example_single:
  \<open>analyze_text_structure (cp ''just one line of text\<newline>'') =
     cp ''Text Analysis: {\<newline>  "word_count": 5,\<newline>  "character_count": 22,\<newline>  "line_count": 2,\<newline>  "paragraph_count": 1,\<newline>  "structure": "single-block"\<newline>}''\<close>
  by (simp add: analyze_text_structure_def cp_def py_strip_def py_isspace_def py_split_sep_def
        py_split_def json_dumps_indent2_def str_nat.simps)

text \<open>
  Claim C9. For every text, \<^verbatim>\<open>analyze_text_structure\<close> returns the notice
  \<^verbatim>\<open>Empty text provided\<close> when the text is empty or all whitespace. Otherwise it
  returns \<^verbatim>\<open>Text Analysis: \<close> and a JSON object with five members, in this order and
  each on a line of its own: the number of whitespace-delimited words, the number of
  characters, the number of newline-delimited lines (one more than the number of
  newline characters), the number of blocks between blank lines that are not all
  whitespace, and the structure, which is \<^verbatim>\<open>multi-paragraph\<close> exactly when that last
  number exceeds 1, else \<^verbatim>\<open>single-block\<close>. The numbers are printed in decimal
  (digits only, no leading zero, denoting the number). The blocks between blank lines,
  joined with blank lines, give the text back. For \<^verbatim>\<open>"a\n\nb"\<close> the report has 2
  paragraphs and the structure \<^verbatim>\<open>multi-paragraph\<close>; two more texts show a block of
  whitespace that is not counted, three newlines in a row, and a single block.
\<close>

theorem analyze_text_structure_report:
  \<open>analyze_text_structure text =
     (if list_all py_isspace text then cp ''Empty text provided''
      else
        cp ''Text Analysis: {\<newline>  "word_count": '' @
          str_nat (length (filter (\<lambda>w. w \<noteq> []) (delimited_fields py_isspace [] text))) @
        cp '',\<newline>  "character_count": '' @ str_nat (length text) @
        cp '',\<newline>  "line_count": '' @ str_nat (length (delimited_fields (\<lambda>c. c = 10) [] text)) @
        cp '',\<newline>  "paragraph_count": '' @
          str_nat (length (filter (\<lambda>p. \<not> list_all py_isspace p) (blank_line_blocks [] text))) @
        cp '',\<newline>  "structure": "'' @
          (if 1 < length (filter (\<lambda>p. \<not> list_all py_isspace p) (blank_line_blocks [] text))
           then cp ''multi-paragraph'' else cp ''single-block'') @
        cp ''"\<newline>}'')
   \<and> is_decimal (str_nat n) \<and> decimal_value (str_nat n) = n
   \<and> length (delimited_fields (\<lambda>c. c = 10) [] text) = Suc (count_list text 10)
   \<and> py_join [10, 10] (blank_line_blocks [] text) = text
   \<and> analyze_text_structure [] = cp ''Empty text provided''
   \<and> analyze_text_structure (cp ''a\<newline>\<newline>b'') =
       cp ''Text Analysis: {\<newline>  "word_count": 2,\<newline>  "character_count": 4,\<newline>  "line_count": 3,\<newline>  "paragraph_count": 2,\<newline>  "structure": "multi-paragraph"\<newline>}''
   \<and> analyze_text_structure
       (cp ''one two'' @ [9] @
        cp ''three\<newline>four five six\<newline>\<newline>\<newline>seven eight nine\<newline>\<newline> '' @ [9] @
        cp ''\<newline>\<newline>ten eleven'') =
       cp ''Text Analysis: {\<newline>  "word_count": 11,\<newline>  "character_count": 62,\<newline>  "line_count": 9,\<newline>  "paragraph_count": 3,\<newline>  "structure": "multi-paragraph"\<newline>}''
   \<and> analyze_text_structure (cp ''just one line of text\<newline>'') =
       cp ''Text Analysis: {\<newline>  "word_count": 5,\<newline>  "character_count": 22,\<newline>  "line_count": 2,\<newline>  "paragraph_count": 1,\<newline>  "structure": "single-block"\<newline>}''\<close>
proof (intro conjI)
  show \<open>analyze_text_structure text =
     (if list_all py_isspace text then cp ''Empty text provided''
      else
        cp ''Text Analysis: {\<newline>  "word_count": '' @
          str_nat (length (filter (\<lambda>w. w \<noteq> []) (delimited_fields py_isspace [] text))) @
        cp '',\<newline>  "character_count": '' @ str_nat (length text) @
        cp '',\<newline>  "line_count": '' @ str_nat (length (delimited_fields (\<lambda>c. c = 10) [] text)) @
        cp '',\<newline>  "paragraph_count": '' @
          str_nat (length (filter (\<lambda>p. \<not> list_all py_isspace p) (blank_line_blocks [] text))) @
        cp '',\<newline>  "structure": "'' @
          (if 1 < length (filter (\<lambda>p. \<not> list_all py_isspace p) (blank_line_blocks [] text))
           then cp ''multi-paragraph'' else cp ''single-block'') @
        cp ''"\<newline>}'')\<close>
    unfolding analyze_text_structure_def py_strip_empty py_split_fields py_split_sep_newline
      py_split_sep_blank_line Let_def json_dumps_indent2_def
    by (simp add: cp_def)
  show "is_decimal (str_nat n)" by (rule is_decimal_str_nat)
  show "decimal_value (str_nat n) = n" by (rule decimal_value_str_nat)
  show "length (delimited_fields (\<lambda>c. c = 10) [] text) = Suc (count_list text 10)"
  proof -
    have "filter (\<lambda>c. c = 10) text = filter ((=) 10) text"
      by (rule filter_cong) auto
    then show ?thesis by (simp add: length_delimited_fields count_list_eq_length_filter)
  qed
  show "py_join [10, 10] (blank_line_blocks [] text) = text"
    by (rule py_join_blank_line_blocks)
  show "analyze_text_structure [] = cp ''Empty text provided''"
    by (simp add: analyze_text_structure_def py_strip_def)
  show \<open>analyze_text_structure (cp ''a\<newline>\<newline>b'') =
       cp ''Text Analysis: {\<newline>  "word_count": 2,\<newline>  "character_count": 4,\<newline>  "line_count": 3,\<newline>  "paragraph_count": 2,\<newline>  "structure": "multi-paragraph"\<newline>}''\<close>
    by (rule analyze_example)
  show \<open>analyze_text_structure
       (cp ''one two'' @ [9] @
        cp ''three\<newline>four five six\<newline>\<newline>\<newline>seven eight nine\<newline>\<newline> '' @ [9] @
        cp ''\<newline>\<newline>ten eleven'') =
       cp ''Text Analysis: {\<newline>  "word_count": 11,\<newline>  "character_count": 62,\<newline>  "line_count": 9,\<newline>  "paragraph_count": 3,\<newline>  "structure": "multi-paragraph"\<newline>}''\<close>
    by (rule analyze_example_blocks)
  show \<open>analyze_text_structure (cp ''just one line of text\<newline>'') =
       cp ''Text Analysis: {\<newline>  "word_count": 5,\<newline>  "character_count": 22,\<newline>  "line_count": 2,\<newline>  "paragraph_count": 1,\<newline>  "structure": "single-block"\<newline>}''\<close>
    by (rule analyze_example_single)
qed

section \<open>Properties of \<^verbatim>\<open>extract_key_themes\<close>\<close>

lemma first_occurrences_snoc: "first_occurrences (xs @ [x]) = (if x \<in> set xs then first_occurrences xs else first_occurrences xs @ [x])"
  by (simp add: first_occurrences_def)

lemma set_first_occurrences: "set (first_occurrences xs) = set xs"
  by (simp add: first_occurrences_def)

lemma distinct_first_occurrences: "distinct (first_occurrences xs)"
  by (simp add: first_occurrences_def)

lemma count_list_snoc: "count_list (xs @ [x]) y = count_list xs y + (if x = y then 1 else 0)"
  by (induction xs) auto

lemma first_index_snoc_mem: "a \<in> set xs \<Longrightarrow> first_index (xs @ [x]) a = first_index xs a"
  by (simp add: first_index_def takeWhile_append1)

lemma first_index_less: "a \<in> set xs \<Longrightarrow> first_index xs a < length xs"
  unfolding first_index_def by (induction xs) auto

lemma first_index_snoc_new: "x \<notin> set xs \<Longrightarrow> first_index (xs @ [x]) x = length xs"
  unfolding first_index_def by (induction xs) auto

lemma sorted_first_occurrences: "sorted_wrt (\<lambda>a b. first_index xs a < first_index xs b) (first_occurrences xs)"
proof (induction xs rule: rev_induct)
  case Nil
  then show ?case by (simp add: first_occurrences_def)
next
  case (snoc x xs)
  have mono: "sorted_wrt (\<lambda>a b. first_index (xs @ [x]) a < first_index (xs @ [x]) b) (first_occurrences xs)"
    using snoc
    by (rule sorted_wrt_mono_rel[rotated]) (simp add: set_first_occurrences first_index_snoc_mem)
  show ?case
  proof (cases "x \<in> set xs")
    case True
    then show ?thesis using mono by (simp add: first_occurrences_snoc)
  next
    case False
    then show ?thesis using mono
      by (auto simp: first_occurrences_snoc sorted_wrt_append set_first_occurrences first_index_snoc_new
            first_index_snoc_mem first_index_less)
  qed
qed

lemma map_of_tabulate: "map_of (map (\<lambda>k. (k, f k)) ks) k = (if k \<in> set ks then Some (f k) else None)"
  by (induction ks) auto

lemma dict_incr_tabulate:
  "dict_incr (map (\<lambda>k. (k, count_list ws k)) (first_occurrences ws)) w =
     map (\<lambda>k. (k, count_list (ws @ [w]) k)) (first_occurrences (ws @ [w]))"
proof (cases "w \<in> set ws")
  case True
  then show ?thesis
    by (simp add: dict_incr_def map_of_tabulate set_first_occurrences first_occurrences_snoc count_list_snoc)
next
  case False
  then show ?thesis
    by (auto simp add: dict_incr_def map_of_tabulate set_first_occurrences first_occurrences_snoc count_list_snoc)
qed

lemma foldl_dict_incr:
  "foldl dict_incr [] ws = map (\<lambda>k. (k, count_list ws k)) (first_occurrences ws)"
proof (induction ws rule: rev_induct)
  case Nil
  then show ?case by (simp add: first_occurrences_def)
next
  case (snoc w ws)
  have "foldl dict_incr [] (ws @ [w]) = dict_incr (foldl dict_incr [] ws) w"
    by simp
  then show ?case
    by (simp only: snoc dict_incr_tabulate)
qed

lemma set_common_words: "set common_words = stop_word_set"
  by (simp add: common_words_def stop_word_set_def)

lemma count_words_foldl:
  "count_words db freq ws =
     foldl dict_incr freq
       (filter (\<lambda>w. 3 < length w \<and> w \<notin> stop_word_set) (map (filter (db_isalnum db)) ws))"
  by (induction ws arbitrary: freq) (auto simp: Let_def set_common_words)

lemma insort_key_lex:
  fixes f :: "'a \<Rightarrow> int"
  assumes "sorted_wrt (\<lambda>a b. f a < f b \<or> (f a = f b \<and> R a b)) ys"
      and "\<forall>y\<in>set ys. R x y"
  shows "sorted_wrt (\<lambda>a b. f a < f b \<or> (f a = f b \<and> R a b)) (insort_key f x ys)"
  using assms
proof (induction ys)
  case Nil
  then show ?case by simp
next
  case (Cons y ys)
  show ?case
  proof (cases "f x \<le> f y")
    case True
    then show ?thesis using Cons.prems by (auto simp: le_less)
  next
    case False
    then show ?thesis using Cons by (auto simp: set_insort_key)
  qed
qed

lemma sort_key_lex:
  fixes f :: "'a \<Rightarrow> int"
  assumes "sorted_wrt R xs"
  shows "sorted_wrt (\<lambda>a b. f a < f b \<or> (f a = f b \<and> R a b)) (sort_key f xs)"
  using assms
proof (induction xs)
  case Nil
  then show ?case by simp
next
  case (Cons x xs)
  then show ?case by (simp add: insort_key_lex)
qed

lemma count_words_tabulate:
  "count_words db [] (py_split (db_lower db text)) =
     map (\<lambda>k. (k, count_list (theme_words db text) k)) (first_occurrences (theme_words db text))"
  by (simp add: count_words_foldl foldl_dict_incr theme_words_def py_split_fields)

lemma set_ranked_themes:
  "set (ranked_themes db text) =
     (\<lambda>k. (k, count_list (theme_words db text) k)) ` set (theme_words db text)"
  by (simp add: ranked_themes_def sorted_by_count_desc_def count_words_tabulate set_first_occurrences)

lemma distinct_ranked_themes: "distinct (map fst (ranked_themes db text))"
proof -
  have "distinct (ranked_themes db text)"
    by (simp add: ranked_themes_def sorted_by_count_desc_def count_words_tabulate
          distinct_map distinct_first_occurrences inj_on_def)
  moreover have "inj_on fst (set (ranked_themes db text))"
    by (auto simp: set_ranked_themes inj_on_def)
  ultimately show ?thesis by (simp add: distinct_map)
qed

lemma sorted_ranked_themes:
  "sorted_wrt (ranked_before (theme_words db text)) (map fst (ranked_themes db text))"
proof -
  let ?ws = "theme_words db text"
  let ?R = "\<lambda>a b. first_index ?ws (fst a) < first_index ?ws (fst b)"
  let ?f = "\<lambda>x :: py_str \<times> nat. - int (snd x)"
  have "sorted_wrt ?R (map (\<lambda>k. (k, count_list ?ws k)) (first_occurrences ?ws))"
    using sorted_first_occurrences [of ?ws] by (simp add: sorted_wrt_map)
  then have "sorted_wrt (\<lambda>a b. ?f a < ?f b \<or> (?f a = ?f b \<and> ?R a b)) (ranked_themes db text)"
    unfolding ranked_themes_def sorted_by_count_desc_def count_words_tabulate
    by (rule sort_key_lex)
  then have "sorted_wrt (\<lambda>a b. ranked_before ?ws (fst a) (fst b)) (ranked_themes db text)"
    by (rule sorted_wrt_mono_rel[rotated]) (auto simp: set_ranked_themes ranked_before_def)
  then show ?thesis by (simp add: sorted_wrt_map)
qed

text \<open>On ASCII text every database of a Python runtime gives the same result.\<close>

lemma ascii_compatible_ascii_only_db: "ascii_compatible ascii_only_db"
  by (simp add: ascii_compatible_def ascii_only_db_def)

lemma ascii_only_db_lower: "db_lower ascii_only_db s = ascii_lower s"
  by (simp add: ascii_only_db_def)

lemma is_ascii_lower: "is_ascii s \<Longrightarrow> is_ascii (ascii_lower s)"
  by (auto simp: is_ascii_def ascii_lower_def list_all_iff)

lemma split_ws_chars: "w \<in> set (split_ws cur s) \<Longrightarrow> set w \<subseteq> set cur \<union> set s"
proof (induction s arbitrary: cur)
  case Nil
  then show ?case by (auto split: if_splits)
next
  case (Cons c cs)
  show ?case
  proof (cases "py_isspace c")
    case True
    then have "w = cur \<or> w \<in> set (split_ws [] cs)"
      using Cons.prems by (auto split: if_splits)
    then show ?thesis using Cons.IH [of "[]"] by auto
  next
    case False
    then have "w \<in> set (split_ws (cur @ [c]) cs)" using Cons.prems by simp
    then show ?thesis using Cons.IH [of "cur @ [c]"] by auto
  qed
qed

lemma py_split_ascii: "is_ascii s \<Longrightarrow> w \<in> set (py_split s) \<Longrightarrow> is_ascii w"
  using split_ws_chars [of w "[]" s] by (auto simp: py_split_def is_ascii_def list_all_iff)

lemma count_words_ascii:
  assumes "ascii_compatible db"
  shows "\<forall>w\<in>set ws. is_ascii w \<Longrightarrow> count_words db freq ws = count_words ascii_only_db freq ws"
proof (induction ws arbitrary: freq)
  case Nil
  then show ?case by simp
next
  case (Cons w ws)
  have "is_ascii w" using Cons.prems by simp
  then have "filter (db_isalnum db) w = filter ascii_isalnum w"
    using assms by (intro filter_cong) (auto simp: ascii_compatible_def is_ascii_def list_all_iff)
  moreover have "db_isalnum ascii_only_db = ascii_isalnum" by (simp add: ascii_only_db_def)
  ultimately show ?case using Cons by (simp add: Let_def)
qed

lemma extract_key_themes_ascii:
  assumes "ascii_compatible db" and "is_ascii s"
  shows "extract_key_themes db s = extract_key_themes ascii_only_db s"
proof -
  have l: "db_lower db s = ascii_lower s"
    using assms by (simp add: ascii_compatible_def)
  have "\<forall>w\<in>set (py_split (ascii_lower s)). is_ascii w"
    using py_split_ascii [OF is_ascii_lower [OF assms(2)]] by blast
  then have "count_words db [] (py_split (ascii_lower s)) =
             count_words ascii_only_db [] (py_split (ascii_lower s))"
    by (rule count_words_ascii [OF assms(1)])
  then have "ranked_themes db s = ranked_themes ascii_only_db s"
    by (simp add: ranked_themes_def l ascii_only_db_lower)
  then show ?thesis by (simp add: extract_key_themes_def top_themes_def)
qed

lemma ex_split:
  "py_split (ascii_lower (cp ''alpha alpha beta'')) =
     [[97, 108, 112, 104, 97], [97, 108, 112, 104, 97], [98, 101, 116, 97]]"
  by (simp add: py_split_def ascii_lower_def cp_def py_isspace_def)

lemma ex_not_common:
  "[97, 108, 112, 104, 97] \<notin> set common_words" "[98, 101, 116, 97] \<notin> set common_words"
  by (simp_all add: cp_def common_words_def)

lemma ex_count:
  "count_words ascii_only_db []
     [[97, 108, 112, 104, 97], [97, 108, 112, 104, 97], [98, 101, 116, 97]] =
     [([97, 108, 112, 104, 97], 2), ([98, 101, 116, 97], 1)]"
  by (simp add: ex_not_common dict_incr_def ascii_only_db_def ascii_isalnum_def Let_def)

lemma ex_ranked:
  "ranked_themes ascii_only_db (cp ''alpha alpha beta'') =
     [([97, 108, 112, 104, 97], 2), ([98, 101, 116, 97], 1)]"
  unfolding ranked_themes_def ascii_only_db_lower ex_split ex_count sorted_by_count_desc_def
  by simp

lemma ex_nonblank: "py_strip (cp ''alpha alpha beta'') \<noteq> []"
  by (simp add: py_strip_def cp_def py_isspace_def)

lemma extract_key_themes_example:
  "extract_key_themes ascii_only_db (cp ''alpha alpha beta'') =
     cp ''Key themes identified: ['' @ [39] @ cp ''alpha'' @ [39] @ cp '', '' @ [39] @
     cp ''beta'' @ [39] @ cp '']''"
  unfolding extract_key_themes_def top_themes_def ex_ranked
  using ex_nonblank by (simp add: repr_str_list_def cp_def)

lemma ex2_split:
  "py_split (ascii_lower (cp ''Beta ALPHA, alpha! the THESE with (beta) gamma delta epsilon zeta eta'')) =
     [[98, 101, 116, 97],
      [97, 108, 112, 104, 97, 44],
      [97, 108, 112, 104, 97, 33],
      [116, 104, 101],
      [116, 104, 101, 115, 101],
      [119, 105, 116, 104],
      [40, 98, 101, 116, 97, 41],
      [103, 97, 109, 109, 97],
      [100, 101, 108, 116, 97],
      [101, 112, 115, 105, 108, 111, 110],
      [122, 101, 116, 97],
      [101, 116, 97]]"
  by (simp add: py_split_def ascii_lower_def cp_def py_isspace_def)

lemma ex2_not_common:
  "[98, 101, 116, 97] \<notin> set common_words" "[97, 108, 112, 104, 97] \<notin> set common_words" "[103, 97, 109, 109, 97] \<notin> set common_words" "[100, 101, 108, 116, 97] \<notin> set common_words" "[101, 112, 115, 105, 108, 111, 110] \<notin> set common_words" "[122, 101, 116, 97] \<notin> set common_words"
  by (simp_all add: cp_def common_words_def)

lemma ex2_common:
  "[116, 104, 101, 115, 101] \<in> set common_words" "[119, 105, 116, 104] \<in> set common_words"
  by (simp_all add: cp_def common_words_def)

lemma ex2_count:
  "count_words ascii_only_db []
     [[98, 101, 116, 97],
      [97, 108, 112, 104, 97, 44],
      [97, 108, 112, 104, 97, 33],
      [116, 104, 101],
      [116, 104, 101, 115, 101],
      [119, 105, 116, 104],
      [40, 98, 101, 116, 97, 41],
      [103, 97, 109, 109, 97],
      [100, 101, 108, 116, 97],
      [101, 112, 115, 105, 108, 111, 110],
      [122, 101, 116, 97],
      [101, 116, 97]] =
     [([98, 101, 116, 97], 2),
      ([97, 108, 112, 104, 97], 2),
      ([103, 97, 109, 109, 97], 1),
      ([100, 101, 108, 116, 97], 1),
      ([101, 112, 115, 105, 108, 111, 110], 1),
      ([122, 101, 116, 97], 1)]"
  by (simp add: ex2_not_common ex2_common dict_incr_def ascii_only_db_def ascii_isalnum_def Let_def)

lemma ex2_ranked:
  "ranked_themes ascii_only_db (cp ''Beta ALPHA, alpha! the THESE with (beta) gamma delta epsilon zeta eta'') =
     [([98, 101, 116, 97], 2),
      ([97, 108, 112, 104, 97], 2),
      ([103, 97, 109, 109, 97], 1),
      ([100, 101, 108, 116, 97], 1),
      ([101, 112, 115, 105, 108, 111, 110], 1),
      ([122, 101, 116, 97], 1)]"
  unfolding ranked_themes_def ascii_only_db_lower ex2_split ex2_count sorted_by_count_desc_def by simp

lemma ex2_nonblank:
  "py_strip (cp ''Beta ALPHA, alpha! the THESE with (beta) gamma delta epsilon zeta eta'') \<noteq> []"
  by (simp add: py_strip_def cp_def py_isspace_def)

lemma extract_key_themes_example2:
  "extract_key_themes ascii_only_db
     (cp ''Beta ALPHA, alpha! the THESE with (beta) gamma delta epsilon zeta eta'') =
     cp ''Key themes identified: ['' @ [39] @ cp ''beta'' @ [39] @ cp '', '' @ [39] @
     cp ''alpha'' @ [39] @ cp '', '' @ [39] @ cp ''gamma'' @ [39] @ cp '', '' @ [39] @
     cp ''delta'' @ [39] @ cp '', '' @ [39] @ cp ''epsilon'' @ [39] @ cp '']''"
  unfolding extract_key_themes_def top_themes_def ex2_ranked
  using ex2_nonblank by (simp add: repr_str_list_def cp_def)

lemma ex_is_ascii:
  "is_ascii (cp ''alpha alpha beta'')"
  "is_ascii (cp ''Beta ALPHA, alpha! the THESE with (beta) gamma delta epsilon zeta eta'')"
  by (simp_all add: is_ascii_def cp_def)

text \<open>
  Claim C8. For every text, \<^verbatim>\<open>extract_key_themes\<close> returns the notice
  \<^verbatim>\<open>No themes found in empty text\<close> when the text is empty or all whitespace, and
  otherwise \<^verbatim>\<open>Key themes identified: \<close> and the first five words of a ranking, each
  in single quotes, separated by a comma and a space, in square brackets. The ranking
  holds each theme word once; the theme words are the non-empty fields between
  whitespace characters of the lower-cased text, each stripped of its non-alphanumeric
  characters, that are longer than 3 and not in the stop-word set. The ranking is in
  descending order of frequency, and words of equal frequency are in the order of their
  first occurrence. This holds whatever the Unicode database of the runtime says is
  alphanumeric and lower case. With a database that treats ASCII as every Python
  runtime does, \<^verbatim>\<open>"alpha alpha beta"\<close> gives \<^verbatim>\<open>alpha\<close> before \<^verbatim>\<open>beta\<close>, and a
  text with capitals, punctuation, stop words, short words, a tie and more than five
  theme words gives the five themes expected.
\<close>

theorem extract_key_themes_ranking:
  "extract_key_themes db text =
     (if list_all py_isspace text then cp ''No themes found in empty text''
      else cp ''Key themes identified: ['' @
           py_join (cp '', '')
             (map (\<lambda>w. [39] @ w @ [39]) (take 5 (map fst (ranked_themes db text)))) @
           cp '']'')
   \<and> distinct (map fst (ranked_themes db text))
   \<and> set (map fst (ranked_themes db text)) = set (theme_words db text)
   \<and> sorted_wrt (ranked_before (theme_words db text)) (map fst (ranked_themes db text))
   \<and> extract_key_themes db [] = cp ''No themes found in empty text''
   \<and> (ascii_compatible db \<longrightarrow>
        extract_key_themes db (cp ''alpha alpha beta'') =
          cp ''Key themes identified: ['' @ [39] @ cp ''alpha'' @ [39] @ cp '', '' @ [39] @
          cp ''beta'' @ [39] @ cp '']'' \<and>
        extract_key_themes db
          (cp ''Beta ALPHA, alpha! the THESE with (beta) gamma delta epsilon zeta eta'') =
          cp ''Key themes identified: ['' @ [39] @ cp ''beta'' @ [39] @ cp '', '' @ [39] @
          cp ''alpha'' @ [39] @ cp '', '' @ [39] @ cp ''gamma'' @ [39] @ cp '', '' @ [39] @
          cp ''delta'' @ [39] @ cp '', '' @ [39] @ cp ''epsilon'' @ [39] @ cp '']'')"
proof (intro conjI impI)
  show "extract_key_themes db text =
     (if list_all py_isspace text then cp ''No themes found in empty text''
      else cp ''Key themes identified: ['' @
           py_join (cp '', '')
             (map (\<lambda>w. [39] @ w @ [39]) (take 5 (map fst (ranked_themes db text)))) @
           cp '']'')"
    unfolding extract_key_themes_def top_themes_def py_strip_empty take_map repr_str_list_def
    by (simp add: cp_def)
  show "distinct (map fst (ranked_themes db text))" by (rule distinct_ranked_themes)
  show "set (map fst (ranked_themes db text)) = set (theme_words db text)"
    by (force simp: set_ranked_themes)
  show "sorted_wrt (ranked_before (theme_words db text)) (map fst (ranked_themes db text))"
    by (rule sorted_ranked_themes)
  show "extract_key_themes db [] = cp ''No themes found in empty text''"
    by (simp add: extract_key_themes_def py_strip_def)
  show "extract_key_themes db (cp ''alpha alpha beta'') =
          cp ''Key themes identified: ['' @ [39] @ cp ''alpha'' @ [39] @ cp '', '' @ [39] @
          cp ''beta'' @ [39] @ cp '']''"
    if "ascii_compatible db"
    using extract_key_themes_ascii [OF that ex_is_ascii(1)]
    by (simp only: extract_key_themes_example)
  show "extract_key_themes db
          (cp ''Beta ALPHA, alpha! the THESE with (beta) gamma delta epsilon zeta eta'') =
          cp ''Key themes identified: ['' @ [39] @ cp ''beta'' @ [39] @ cp '', '' @ [39] @
          cp ''alpha'' @ [39] @ cp '', '' @ [39] @ cp ''gamma'' @ [39] @ cp '', '' @ [39] @
          cp ''delta'' @ [39] @ cp '', '' @ [39] @ cp ''epsilon'' @ [39] @ cp '']''"
    if "ascii_compatible db"
    using extract_key_themes_ascii [OF that ex_is_ascii(2)]
    by (simp only: extract_key_themes_example2)
qed

theorem extract_key_themes_ranking_witness:
  "ascii_compatible ascii_only_db \<and>
   extract_key_themes ascii_only_db (cp ''alpha alpha beta'') =
     cp ''Key themes identified: ['' @ [39] @ cp ''alpha'' @ [39] @ cp '', '' @ [39] @
     cp ''beta'' @ [39] @ cp '']'' \<and>
   extract_key_themes ascii_only_db
     (cp ''Beta ALPHA, alpha! the THESE with (beta) gamma delta epsilon zeta eta'') =
     cp ''Key themes identified: ['' @ [39] @ cp ''beta'' @ [39] @ cp '', '' @ [39] @
     cp ''alpha'' @ [39] @ cp '', '' @ [39] @ cp ''gamma'' @ [39] @ cp '', '' @ [39] @
     cp ''delta'' @ [39] @ cp '', '' @ [39] @ cp ''epsilon'' @ [39] @ cp '']''"
proof -
  have c: "ascii_compatible ascii_only_db"
    by (simp add: ascii_compatible_def ascii_only_db_def)
  from extract_key_themes_ranking [of ascii_only_db "[]"] c show ?thesis by blast
qed

section \<open>Properties of the agent loop\<close>


lemma should_continue_cases:
  "should_continue st = cp ''continue'' \<longleftrightarrow>
     iterations st < max_iterations st \<and> messages st \<noteq> [] \<and> has_tool_calls (last (messages st))"
  by (simp add: should_continue_def cp_def)


lemma graph_steps_unfold:
  assumes "agent_node model oracle st = (Inr out, oracle')"
  shows "graph_steps limit (Suc left) model tools oracle st =
     (if left = 0 then ([(out, apply_output st out)], Some (GraphRecursionError limit))
      else if should_continue (apply_output st out) = cp ''continue'' then
        (case tools (apply_output st out) of
           Inl e \<Rightarrow> ([(out, apply_output st out)], Some e)
         | Inr msgs \<Rightarrow>
             ((out, apply_output st out) #
              (ToolsOutput msgs, apply_output (apply_output st out) (ToolsOutput msgs)) #
              fst (graph_steps limit (left - 1) model tools oracle'
                     (apply_output (apply_output st out) (ToolsOutput msgs))),
              snd (graph_steps limit (left - 1) model tools oracle'
                     (apply_output (apply_output st out) (ToolsOutput msgs)))))
      else ([(out, apply_output st out)], None))"
  by (subst graph_steps.simps) (simp add: assms Let_def split: sum.splits)



















text \<open>
  Claim C5. Every execution of the agent node returns normally (no exception leaves
  it) with \<open>iterations\<close> incremented by exactly one, whether the model call succeeds or
  raises. When the call raises, the node returns the messages with one assistant entry
  \<^verbatim>\<open>I encountered an error: ...\<close> appended, carrying the text of the exception, and
  the graph goes on to \<^verbatim>\<open>should_continue\<close>, which ends the run. When the call
  succeeds, the response is appended.
\<close>

theorem agent_node_increments_and_recovers:
  "\<exists>msgs oracle'.
     agent_node model oracle st = (Inr (AgentOutput msgs (iterations st + 1)), oracle') \<and>
     iterations (apply_output st (AgentOutput msgs (iterations st + 1))) = iterations st + 1 \<and>
     (\<forall>invoke e orc.
        model = Some invoke \<and> invoke oracle (conversation st) = (Inl e, orc) \<longrightarrow>
          msgs = conversation st @ [AIMessage (cp ''I encountered an error: '' @ exc_str e) []] \<and>
          should_continue (apply_output st (AgentOutput msgs (iterations st + 1))) = cp ''end'') \<and>
     (\<forall>invoke response orc.
        model = Some invoke \<and> invoke oracle (conversation st) = (Inr response, orc) \<longrightarrow>
          msgs = conversation st @ [response])"
proof (cases model)
  case None
  then show ?thesis by (simp add: agent_node_def Let_def)
next
  case (Some invoke)
  obtain r orc where inv: "invoke oracle (conversation st) = (r, orc)"
    by (cases "invoke oracle (conversation st)")
  show ?thesis
  proof (cases r)
    case (Inl e)
    then show ?thesis using Some inv
      by (simp add: agent_node_def Let_def should_continue_def)
  next
    case (Inr response)
    then show ?thesis using Some inv
      by (simp add: agent_node_def Let_def)
  qed
qed

theorem agent_node_increments_and_recovers_witness:
  "agent_node (Some failing_llm) () (start_state 3) =
     (Inr (AgentOutput
        (conversation (start_state 3) @ [AIMessage (cp ''I encountered an error: boom'') []]) 1),
      ())"
proof -
  have f: "failing_llm () (conversation (start_state 3)) = (Inl (PyException (cp ''boom'')), ())"
    by (simp add: failing_llm_def)
  obtain msgs oracle' where
    an: "agent_node (Some failing_llm) () (start_state 3) =
           (Inr (AgentOutput msgs (iterations (start_state 3) + 1)), oracle')"
    and msgs: "msgs = conversation (start_state 3) @
           [AIMessage (cp ''I encountered an error: '' @ exc_str (PyException (cp ''boom''))) []]"
    using agent_node_increments_and_recovers [of "Some failing_llm" "()" "start_state 3"] f
    by blast
  have "iterations (start_state 3) + 1 = 1" by (simp add: start_state_def)
  with an msgs show ?thesis by (simp add: cp_def)
qed

lemma unknown_action_conversation:
  assumes "act \<noteq> cp ''generate''" and "act \<noteq> cp ''edit''" and "act \<noteq> cp ''improve''"
  shows "conversation \<lparr>messages = [], content = txt, context = ctx, action = act,
                        iterations = i, max_iterations = n\<rparr> =
           [SystemMessage generate_system_prompt,
            HumanMessage
              (append_context ctx (cp ''aspect'') (cp ''\<newline>\<newline>**Specific aspect:** '')
                 (cp ''Please help me improve this text:\<newline>\<newline>'' @ txt))]"
  using assms
  by (simp add: conversation_def system_prompt_for_def system_prompts_def user_message_for_def)

text \<open>
  Claim C6 says that for an action outside generate, edit and improve both initial
  messages are those of the generate action. The system prompt is (the dictionary
  lookup has that default), the user message is not: the \<^verbatim>\<open>else\<close> branch, commented
  \<^verbatim>\<open># improve\<close>, takes every action that is neither generate nor edit. For the
  action \<^verbatim>\<open>summarize\<close> and the text \<^verbatim>\<open>x\<close> the code builds the improve request, where
  the generate action builds another text.
\<close>

theorem unknown_action_gets_improve_template:
  "conversation \<lparr>messages = [], content = cp ''x'', context = Map.empty,
                  action = cp ''summarize'', iterations = 0, max_iterations = 3\<rparr> =
     [SystemMessage generate_system_prompt,
      HumanMessage (cp ''Please help me improve this text:\<newline>\<newline>x'')] \<and>
   conversation \<lparr>messages = [], content = cp ''x'', context = Map.empty,
                  action = cp ''generate'', iterations = 0, max_iterations = 3\<rparr> =
     [SystemMessage generate_system_prompt,
      HumanMessage (cp ''Please help me generate text based on this prompt: x'')]"
proof -
  have ne: "cp ''summarize'' \<noteq> cp ''generate''" "cp ''summarize'' \<noteq> cp ''edit''"
    "cp ''summarize'' \<noteq> cp ''improve''"
    by (simp_all add: cp_def)
  have a: "conversation \<lparr>messages = [], content = cp ''x'', context = Map.empty,
                  action = cp ''summarize'', iterations = 0, max_iterations = 3\<rparr> =
     [SystemMessage generate_system_prompt,
      HumanMessage (cp ''Please help me improve this text:\<newline>\<newline>x'')]"
    unfolding unknown_action_conversation [OF ne]
    by (simp add: append_context_def cp_def)
  have b: "conversation \<lparr>messages = [], content = cp ''x'', context = Map.empty,
                  action = cp ''generate'', iterations = 0, max_iterations = 3\<rparr> =
     [SystemMessage generate_system_prompt,
      HumanMessage (cp ''Please help me generate text based on this prompt: x'')]"
    by (simp add: conversation_def system_prompt_for_def system_prompts_def
          user_message_for_def append_context_def)
       (simp add: cp_def)
  from a b show ?thesis by simp
qed

section \<open>Properties of the streaming generators\<close>

lemma split_ws_words:
  "list_all (\<lambda>c. \<not> py_isspace c) cur \<Longrightarrow>
     list_all (\<lambda>w. w \<noteq> [] \<and> list_all (\<lambda>c. \<not> py_isspace c) w) (split_ws cur s)"
  by (induction s arbitrary: cur) auto

lemma py_split_words:
  "list_all (\<lambda>w. w \<noteq> [] \<and> list_all (\<lambda>c. \<not> py_isspace c) w) (py_split s)"
  by (simp add: py_split_def split_ws_words)

lemma split_ws_blank: "list_all py_isspace s \<Longrightarrow> split_ws [] s = []"
  by (induction s) auto

lemma split_ws_not_blank: "\<not> list_all py_isspace s \<or> cur \<noteq> [] \<Longrightarrow> split_ws cur s \<noteq> []"
  by (induction s arbitrary: cur) auto

lemma py_split_empty_iff: "py_split s = [] \<longleftrightarrow> list_all py_isspace s"
  using split_ws_blank [of s] split_ws_not_blank [of s "[]"] by (auto simp: py_split_def)

lemma concat_with_trailing:
  "ws \<noteq> [] \<Longrightarrow> concat (map (\<lambda>w. w @ sep) ws) = py_join sep ws @ sep"
  by (induction sep ws rule: py_join.induct) auto

lemma word_fragments_example:
  "word_fragments (cp ''Hello world'') = [cp ''Hello '', cp ''world '']"
  by (simp add: word_fragments_def py_split_def cp_def py_isspace_def)

text \<open>
  Claim C7, amended. For every assistant text the generator yields exactly the
  whitespace-delimited words of the text, in order, each with one space appended. When
  the text has at least one word, the concatenation of the fragments is the words joined
  by single spaces plus one trailing space; a text of whitespace only yields no
  fragment. For \<^verbatim>\<open>Hello world\<close> the fragments are \<^verbatim>\<open>"Hello "\<close> and
  \<^verbatim>\<open>"world "\<close>.
\<close>

theorem word_fragments_tokens:
  "word_fragments text =
     map (\<lambda>w. w @ cp '' '') (filter (\<lambda>w. w \<noteq> []) (delimited_fields py_isspace [] text)) \<and>
   (\<not> list_all py_isspace text \<longrightarrow>
      concat (word_fragments text) = py_join (cp '' '') (py_split text) @ cp '' '') \<and>
   (list_all py_isspace text \<longrightarrow> word_fragments text = []) \<and>
   word_fragments (cp ''Hello world'') = [cp ''Hello '', cp ''world '']"
proof -
  have a: "word_fragments text =
     map (\<lambda>w. w @ cp '' '') (filter (\<lambda>w. w \<noteq> []) (delimited_fields py_isspace [] text))"
    by (cases "text") (simp_all add: word_fragments_def py_split_fields)
  have b: "concat (word_fragments text) = py_join (cp '' '') (py_split text) @ cp '' ''"
    if "\<not> list_all py_isspace text"
  proof -
    from that have "py_split text \<noteq> []" by (simp add: py_split_empty_iff)
    moreover from that have "text \<noteq> []" by auto
    ultimately show ?thesis by (simp add: word_fragments_def concat_with_trailing)
  qed
  have c: "word_fragments text = []" if "list_all py_isspace text"
    using that by (simp add: word_fragments_def py_split_empty_iff)
  from a b c word_fragments_example show ?thesis by blast
qed

theorem word_fragments_tokens_witness:
  "\<not> list_all py_isspace (cp ''Hello world'') \<and>
   concat (word_fragments (cp ''Hello world'')) =
     py_join (cp '' '') (py_split (cp ''Hello world'')) @ cp '' '' \<and>
   concat (word_fragments (cp ''Hello world'')) = cp ''Hello world '' \<and>
   list_all py_isspace (cp ''  '') \<and> word_fragments (cp ''  '') = []"
proof -
  have h1: "\<not> list_all py_isspace (cp ''Hello world'')"
    by (simp add: cp_def py_isspace_def)
  have h2: "list_all py_isspace (cp ''  '')"
    by (simp add: cp_def py_isspace_def)
  have e: "concat (word_fragments (cp ''Hello world'')) = cp ''Hello world ''"
    by (simp add: word_fragments_example) (simp add: cp_def)
  from h1 word_fragments_tokens [of "cp ''Hello world''"]
  have j: "concat (word_fragments (cp ''Hello world'')) =
     py_join (cp '' '') (py_split (cp ''Hello world'')) @ cp '' ''"
    by blast
  from h2 word_fragments_tokens [of "cp ''  ''"]
  have b: "word_fragments (cp ''  '') = []"
    by blast
  from h1 h2 e j b show ?thesis by blast
qed

text \<open>
  Claim C7 as stated covers every non-empty text. The text of one space is not empty
  and has no word: nothing is yielded, the concatenation of the fragments is empty, and
  the words joined by spaces plus one trailing space are one space.
\<close>

theorem word_fragments_counterexample:
  "cp '' '' \<noteq> [] \<and> word_fragments (cp '' '') = [] \<and>
   concat (word_fragments (cp '' '')) \<noteq> py_join (cp '' '') (py_split (cp '' '')) @ cp '' ''"
  by (simp add: word_fragments_def py_split_def cp_def py_isspace_def)

section \<open>Properties of the event stream\<close>

lemma type_neq_error:
  "a @ cp ''_start'' \<noteq> cp ''error''" "a @ cp ''_chunk'' \<noteq> cp ''error''"
  "a @ cp ''_complete'' \<noteq> cp ''error''"
  "cp ''error'' \<noteq> a @ cp ''_start''" "cp ''error'' \<noteq> a @ cp ''_chunk''"
  "cp ''error'' \<noteq> a @ cp ''_complete''"
  by (auto simp: cp_def dest: arg_cong [where f = length])

lemma suffix_neq:
  "cp ''_start'' \<noteq> cp ''_chunk''" "cp ''_start'' \<noteq> cp ''_complete''"
  "cp ''_chunk'' \<noteq> cp ''_start''" "cp ''_chunk'' \<noteq> cp ''_complete''"
  "cp ''_complete'' \<noteq> cp ''_start''" "cp ''_complete'' \<noteq> cp ''_chunk''"
  by (simp_all add: cp_def)

lemma create_sse_stream_shape:
  "create_sse_stream gen a =
     start_event a # map (chunk_event a) (filter (\<lambda>c. c \<noteq> []) (fst gen)) @ [terminal_event a (snd gen)]"
  by (simp add: create_sse_stream_def terminal_event_def)

lemma event_type_simps:
  "event_type (start_event a) = a @ cp ''_start''"
  "event_type (chunk_event a c) = a @ cp ''_chunk''"
  "event_type (terminal_event a None) = a @ cp ''_complete''"
  "event_type (terminal_event a (Some e)) = cp ''error''"
  "event_type (complete_event a) = a @ cp ''_complete''"
  "event_type (error_event a e) = cp ''error''"
  by (simp_all add: event_type_def start_event_def chunk_event_def terminal_event_def
        complete_event_def error_event_def)

lemma event_content_chunk: "event_content (chunk_event a c) = c"
  by (simp add: event_content_def chunk_event_def cp_def)

lemma classify_start:
  "is_start a (start_event a)" "\<not> is_chunk a (start_event a)"
  "\<not> is_terminal a (start_event a)"
  by (simp_all add: is_start_def is_chunk_def is_terminal_def is_complete_def is_error_def
        event_type_simps suffix_neq type_neq_error)

lemma classify_chunk:
  "is_chunk a (chunk_event a c)" "\<not> is_start a (chunk_event a c)"
  "\<not> is_terminal a (chunk_event a c)"
  by (simp_all add: is_start_def is_chunk_def is_terminal_def is_complete_def is_error_def
        event_type_simps suffix_neq type_neq_error)

lemma classify_terminal:
  "is_terminal a (terminal_event a r)" "\<not> is_start a (terminal_event a r)"
  "\<not> is_chunk a (terminal_event a r)"
  "is_complete a (terminal_event a r) \<longleftrightarrow> r = None"
  "is_error (terminal_event a r) \<longleftrightarrow> r \<noteq> None"
  by (cases r; simp add: is_start_def is_chunk_def is_terminal_def is_complete_def is_error_def
        event_type_simps suffix_neq type_neq_error)+

lemma filter_chunks:
  "filter (is_chunk a) (map (chunk_event a) cs) = map (chunk_event a) cs"
  "filter (is_start a) (map (chunk_event a) cs) = []"
  "filter (is_terminal a) (map (chunk_event a) cs) = []"
  by (induction cs) (simp_all add: classify_chunk)

text \<open>
  Claim C2. For every generator, whatever it yields and whether it finishes or raises,
  the events \<^verbatim>\<open>create_sse_stream\<close> emits are one start event, then one chunk event for
  each non-empty fragment, in the order of the fragments, then one terminal event, and
  nothing after it. The terminal event is the only one of the stream; it is a complete
  event exactly when the generator finished, an error event exactly when it raised, and
  never both.
\<close>

theorem sse_stream_framing:
  "\<exists>start chunks terminal.
     create_sse_stream gen action_type = start # chunks @ [terminal] \<and>
     is_start action_type start \<and>
     list_all (is_chunk action_type) chunks \<and>
     map event_content chunks = filter (\<lambda>fragment. fragment \<noteq> []) (fst gen) \<and>
     is_terminal action_type terminal \<and>
     length (filter (is_terminal action_type) (create_sse_stream gen action_type)) = 1 \<and>
     last (create_sse_stream gen action_type) = terminal \<and>
     filter (is_chunk action_type) (create_sse_stream gen action_type) = chunks \<and>
     filter (is_start action_type) (create_sse_stream gen action_type) = [start] \<and>
     (is_complete action_type terminal \<longleftrightarrow> snd gen = None) \<and>
     (is_error terminal \<longleftrightarrow> snd gen \<noteq> None)"
proof -
  let ?cs = "filter (\<lambda>fragment. fragment \<noteq> []) (fst gen)"
  let ?chunks = "map (chunk_event action_type) ?cs"
  let ?t = "terminal_event action_type (snd gen)"
  have shape: "create_sse_stream gen action_type = start_event action_type # ?chunks @ [?t]"
    by (rule create_sse_stream_shape)
  have c1: "list_all (is_chunk action_type) ?chunks"
    by (simp add: list_all_iff classify_chunk)
  have c2: "map event_content ?chunks = ?cs"
    by (simp add: comp_def event_content_chunk)
  have c3: "length (filter (is_terminal action_type) (create_sse_stream gen action_type)) = 1"
    unfolding shape by (simp add: classify_start classify_terminal filter_chunks)
  have c4: "last (create_sse_stream gen action_type) = ?t"
    unfolding shape by simp
  have c5: "filter (is_chunk action_type) (create_sse_stream gen action_type) = ?chunks"
    unfolding shape by (simp add: classify_start classify_terminal filter_chunks)
  have c6: "filter (is_start action_type) (create_sse_stream gen action_type) = [start_event action_type]"
    unfolding shape by (simp add: classify_start classify_terminal filter_chunks)
  show ?thesis
  proof (intro exI conjI)
    show "create_sse_stream gen action_type = start_event action_type # ?chunks @ [?t]"
      by (rule shape)
    show "is_start action_type (start_event action_type)" by (rule classify_start)
    show "list_all (is_chunk action_type) ?chunks" by (rule c1)
    show "map event_content ?chunks = ?cs" by (rule c2)
    show "is_terminal action_type ?t" by (rule classify_terminal)
    show "length (filter (is_terminal action_type) (create_sse_stream gen action_type)) = 1"
      by (rule c3)
    show "last (create_sse_stream gen action_type) = ?t" by (rule c4)
    show "filter (is_chunk action_type) (create_sse_stream gen action_type) = ?chunks"
      by (rule c5)
    show "filter (is_start action_type) (create_sse_stream gen action_type) =
            [start_event action_type]"
      by (rule c6)
    show "is_complete action_type ?t \<longleftrightarrow> snd gen = None" by (rule classify_terminal)
    show "is_error ?t \<longleftrightarrow> snd gen \<noteq> None" by (rule classify_terminal)
  qed
qed

lemma is_word_fragment_word:
  "w \<noteq> [] \<Longrightarrow> list_all (\<lambda>c. \<not> py_isspace c) w \<Longrightarrow> is_word_fragment (w @ cp '' '')"
  by (simp add: is_word_fragment_def cp_def)

lemma word_fragments_ok: "list_all is_word_fragment (word_fragments txt)"
  using py_split_words [of "txt"]
  by (auto simp: word_fragments_def list_all_iff is_word_fragment_word)

lemma output_fragments_ok: "list_all is_word_fragment (output_fragments out)"
  by (cases out) (simp_all add: word_fragments_ok)

lemma run_fragments_ok:
  "list_all is_word_fragment (concat (map (\<lambda>(out, st). output_fragments out) run))"
  using output_fragments_ok by (induction run) (auto simp: list_all_iff)

lemma stream_action_finishes: "snd (stream_action agent orc act prefix txt ctx) = None"
  by (simp add: stream_action_def Let_def split: option.splits)

lemma stream_action_fragments:
  "fst (stream_action agent orc act prefix txt ctx) =
     concat (map (\<lambda>(out, st). output_fragments out)
       (fst (graph_astream agent orc (initial_state act txt ctx)))) @
     (case snd (graph_astream agent orc (initial_state act txt ctx)) of
        None \<Rightarrow> [] | Some e \<Rightarrow> [prefix @ exc_str e])"
  by (simp add: stream_action_def Let_def split: option.splits)

lemma stream_action_ok:
  "generator_fragments_ok prefix (stream_action agent orc act prefix txt ctx)"
proof (cases "snd (graph_astream agent orc (initial_state act txt ctx))")
  case None
  then show ?thesis
    by (simp add: generator_fragments_ok_def stream_action_finishes stream_action_fragments
          run_fragments_ok)
next
  case (Some e)
  then show ?thesis
    by (simp add: generator_fragments_ok_def stream_action_finishes stream_action_fragments
          run_fragments_ok)
qed

lemma inner_space_not_word: "32 \<in> set (butlast f) \<Longrightarrow> \<not> is_word_fragment f"
  unfolding is_word_fragment_def list_all_iff
proof
  assume a: "32 \<in> set (butlast f)"
    and b: "f \<noteq> [] \<and> last f = 32 \<and> butlast f \<noteq> [] \<and> (\<forall>c\<in>set (butlast f). \<not> py_isspace c)"
  have "py_isspace 32" by (simp add: py_isspace_def)
  with a b show False by blast
qed

lemma mem_butlast_append: "x \<in> set xs \<Longrightarrow> ys \<noteq> [] \<Longrightarrow> x \<in> set (butlast (xs @ ys))"
  by (simp add: butlast_append)

lemma error_text_not_word:
  "\<not> is_word_fragment (cp ''Error generating text: '' @ s)"
  "\<not> is_word_fragment (cp ''Error editing text: '' @ s)"
  "\<not> is_word_fragment (cp ''Error improving text: '' @ s)"
proof -
  have sp: "32 \<in> set (cp ''Error '')" by (simp add: cp_def)
  have g: "cp ''Error generating text: '' @ s = cp ''Error '' @ (cp ''generating text: '' @ s)"
    and e: "cp ''Error editing text: '' @ s = cp ''Error '' @ (cp ''editing text: '' @ s)"
    and i: "cp ''Error improving text: '' @ s = cp ''Error '' @ (cp ''improving text: '' @ s)"
    by (simp_all add: cp_def)
  have ne: "cp ''generating text: '' @ s \<noteq> []" "cp ''editing text: '' @ s \<noteq> []"
    "cp ''improving text: '' @ s \<noteq> []"
    by (simp_all add: cp_def)
  show "\<not> is_word_fragment (cp ''Error generating text: '' @ s)"
    unfolding g by (rule inner_space_not_word, rule mem_butlast_append [OF sp ne(1)])
  show "\<not> is_word_fragment (cp ''Error editing text: '' @ s)"
    unfolding e by (rule inner_space_not_word, rule mem_butlast_append [OF sp ne(2)])
  show "\<not> is_word_fragment (cp ''Error improving text: '' @ s)"
    unfolding i by (rule inner_space_not_word, rule mem_butlast_append [OF sp ne(3)])
qed

lemma chunk_contents:
  "map event_content (filter (is_chunk a) (create_sse_stream gen a)) =
     filter (\<lambda>f. f \<noteq> []) (fst gen)"
  by (simp add: create_sse_stream_shape classify_start classify_terminal filter_chunks
        comp_def event_content_chunk)

text \<open>
  Claim C10, amended. Every chunk event carries non-empty content: the contents of the
  chunk events are the non-empty fragments of the generator, in order. Every fragment
  yielded for an output of the agent node is a non-empty word without whitespace
  followed by exactly one space. A generator of the agent yields such fragments only,
  except that its exception handler yields, last, the text
  \<^verbatim>\<open>Error generating text: ...\<close> (\<^verbatim>\<open>editing\<close>, \<^verbatim>\<open>improving\<close>), which is not empty but is
  never of that shape: it has spaces inside.
\<close>

theorem chunk_events_nonempty:
  "map event_content (filter (is_chunk action_type) (create_sse_stream gen action_type)) =
     filter (\<lambda>fragment. fragment \<noteq> []) (fst gen) \<and>
   list_all (\<lambda>ev. event_content ev \<noteq> [])
     (filter (is_chunk action_type) (create_sse_stream gen action_type)) \<and>
   list_all is_word_fragment (output_fragments out) \<and>
   generator_fragments_ok (cp ''Error generating text: '') (generate_text agent oracle txt ctx) \<and>
   generator_fragments_ok (cp ''Error editing text: '') (edit_text agent oracle txt ctx) \<and>
   generator_fragments_ok (cp ''Error improving text: '') (improve_text agent oracle txt ctx) \<and>
   \<not> is_word_fragment (cp ''Error generating text: '' @ description) \<and>
   \<not> is_word_fragment (cp ''Error editing text: '' @ description) \<and>
   \<not> is_word_fragment (cp ''Error improving text: '' @ description)"
proof -
  have "list_all (\<lambda>c. c \<noteq> [])
          (map event_content (filter (is_chunk action_type) (create_sse_stream gen action_type)))"
    unfolding chunk_contents by (simp add: list_all_iff)
  then have "list_all (\<lambda>ev. event_content ev \<noteq> [])
     (filter (is_chunk action_type) (create_sse_stream gen action_type))"
    by (simp add: list_all_iff)
  then show ?thesis
    by (simp add: chunk_contents output_fragments_ok generate_text_def edit_text_def
          improve_text_def stream_action_ok error_text_not_word)
qed

lemma uninitialized_fragments:
  "generate_text uninitialized_agent () txt ctx =
     ([cp ''Error generating text: '' @ [39] @ cp ''NoneType'' @ [39] @
       cp '' object has no attribute '' @ [39] @ cp ''astream'' @ [39]], None)"
  by (simp add: generate_text_def stream_action_def graph_astream_def uninitialized_agent_def
        attribute_error_def Let_def)

text \<open>
  Claim C10 as stated says that every fragment the generators produce is a word
  followed by one space. When the graph is \<open>None\<close> the generator of
  \<^verbatim>\<open>generate_text\<close> yields one fragment, the text of its exception handler, which has
  spaces inside and none at its end.
\<close>

theorem chunk_events_counterexample:
  "fst (generate_text uninitialized_agent () (cp ''x'') None) =
     [cp ''Error generating text: '' @ [39] @ cp ''NoneType'' @ [39] @
      cp '' object has no attribute '' @ [39] @ cp ''astream'' @ [39]] \<and>
   \<not> list_all is_word_fragment (fst (generate_text uninitialized_agent () (cp ''x'') None))"
  by (simp add: uninitialized_fragments is_word_fragment_def cp_def)

lemma api_generate_shape:
  "api_generate agent orc prompt ctx =
     start_event (cp ''generation'') #
     map (chunk_event (cp ''generation''))
       (filter (\<lambda>f. f \<noteq> [])
          (fst (generate_text agent orc prompt
                  (Some (case ctx of None \<Rightarrow> Map.empty | Some c \<Rightarrow> c))))) @
     [complete_event (cp ''generation'')]"
  by (simp add: api_generate_def create_sse_stream_def generate_text_def
        stream_action_finishes)

lemma no_error_when_finished:
  "snd gen = None \<Longrightarrow> filter is_error (create_sse_stream gen a) = [] \<and>
     is_complete a (last (create_sse_stream gen a))"
proof -
  assume fin: "snd gen = None"
  have "\<not> is_error (start_event a)"
    by (simp add: is_error_def event_type_simps type_neq_error)
  moreover have "filter is_error (map (chunk_event a) cs) = []" for cs
    by (induction cs) (simp_all add: is_error_def event_type_simps type_neq_error)
  moreover have "\<not> is_error (terminal_event a None)" "is_complete a (terminal_event a None)"
    by (simp_all add: classify_terminal)
  ultimately show ?thesis
    using fin by (simp add: create_sse_stream_shape)
qed

lemma failed_call_fragments:
  assumes "invoke orc (conversation st) = (Inl e, orc')"
  shows "\<exists>out. agent_node (Some invoke) orc st = (Inr out, orc') \<and>
           output_fragments out = word_fragments (cp ''I encountered an error: '' @ exc_str e)"
  using assms by (simp add: agent_node_def Let_def)

text \<open>
  Claim C3, amended. An exception raised inside the agent's text-producing pipeline
  never reaches \<^verbatim>\<open>create_sse_stream\<close>, and no error event follows from it. When the
  model call raises, the agent node turns the exception into the assistant entry
  \<^verbatim>\<open>I encountered an error: ...\<close>, which is streamed word by word as chunk events.
  When \<^verbatim>\<open>graph.astream\<close> raises, the handler of the generator yields one last
  fragment, \<^verbatim>\<open>Error generating text: ...\<close>, which is emitted as a chunk event. In both
  cases the generator finishes normally, and the stream is the start event, the chunk
  events and one complete event. (An error event is what \<^verbatim>\<open>create_sse_stream\<close> emits
  when the generator handed to it raises; the three generators of the agent never do.)
\<close>

theorem pipeline_exceptions_become_chunks:
  "snd (generate_text agent oracle prompt ctx) = None \<and>
   snd (edit_text agent oracle prompt ctx) = None \<and>
   snd (improve_text agent oracle prompt ctx) = None \<and>
   api_generate agent oracle prompt ctx =
     start_event (cp ''generation'') #
     map (chunk_event (cp ''generation''))
       (filter (\<lambda>fragment. fragment \<noteq> [])
          (fst (generate_text agent oracle prompt
                  (Some (case ctx of None \<Rightarrow> Map.empty | Some c \<Rightarrow> c))))) @
     [complete_event (cp ''generation'')] \<and>
   filter is_error (api_generate agent oracle prompt ctx) = [] \<and>
   filter is_error (api_edit agent oracle prompt ctx) = [] \<and>
   filter is_error (api_improve agent oracle prompt ctx) = [] \<and>
   is_complete (cp ''generation'') (last (api_generate agent oracle prompt ctx)) \<and>
   is_complete (cp ''edit'') (last (api_edit agent oracle prompt ctx)) \<and>
   is_complete (cp ''improve'') (last (api_improve agent oracle prompt ctx)) \<and>
   (\<forall>e. snd (graph_astream agent oracle (initial_state (cp ''generate'') prompt ctx)) = Some e \<longrightarrow>
      fst (generate_text agent oracle prompt ctx) =
        concat (map (\<lambda>(out, st). output_fragments out)
          (fst (graph_astream agent oracle (initial_state (cp ''generate'') prompt ctx)))) @
        [cp ''Error generating text: '' @ exc_str e]) \<and>
   (\<forall>invoke e orc. invoke oracle (conversation st) = (Inl e, orc) \<longrightarrow>
      (\<exists>out. agent_node (Some invoke) oracle st = (Inr out, orc) \<and>
         output_fragments out = word_fragments (cp ''I encountered an error: '' @ exc_str e))) \<and>
   is_error (last (create_sse_stream (fragments, Some raised) action_type))"
proof -
  have fin: "snd (generate_text agent oracle prompt ctx) = None"
    "snd (edit_text agent oracle prompt ctx) = None"
    "snd (improve_text agent oracle prompt ctx) = None"
    by (simp_all add: generate_text_def edit_text_def improve_text_def stream_action_finishes)
  have g: "filter is_error (api_generate agent oracle prompt ctx) = [] \<and>
           is_complete (cp ''generation'') (last (api_generate agent oracle prompt ctx))"
    unfolding api_generate_def
    by (rule no_error_when_finished) (simp add: generate_text_def stream_action_finishes)
  have e: "filter is_error (api_edit agent oracle prompt ctx) = [] \<and>
           is_complete (cp ''edit'') (last (api_edit agent oracle prompt ctx))"
    unfolding api_edit_def
    by (rule no_error_when_finished) (simp add: edit_text_def stream_action_finishes)
  have i: "filter is_error (api_improve agent oracle prompt ctx) = [] \<and>
           is_complete (cp ''improve'') (last (api_improve agent oracle prompt ctx))"
    unfolding api_improve_def
    by (rule no_error_when_finished) (simp add: improve_text_def stream_action_finishes)
  have h: "fst (generate_text agent oracle prompt ctx) =
        concat (map (\<lambda>(out, st). output_fragments out)
          (fst (graph_astream agent oracle (initial_state (cp ''generate'') prompt ctx)))) @
        [cp ''Error generating text: '' @ exc_str e]"
    if "snd (graph_astream agent oracle (initial_state (cp ''generate'') prompt ctx)) = Some e"
    for e
    using that by (simp add: generate_text_def stream_action_fragments)
  have r: "is_error (last (create_sse_stream (fragments, Some raised) action_type))"
    by (simp add: create_sse_stream_shape classify_terminal)
  have f: "\<exists>out. agent_node (Some invoke) oracle st = (Inr out, orc) \<and>
         output_fragments out = word_fragments (cp ''I encountered an error: '' @ exc_str e)"
    if "invoke oracle (conversation st) = (Inl e, orc)" for invoke e orc
    using that by (rule failed_call_fragments)
  show ?thesis
  proof (intro conjI allI impI)
    show "snd (generate_text agent oracle prompt ctx) = None" by (rule fin)
    show "snd (edit_text agent oracle prompt ctx) = None" by (rule fin)
    show "snd (improve_text agent oracle prompt ctx) = None" by (rule fin)
    show "api_generate agent oracle prompt ctx =
       start_event (cp ''generation'') #
       map (chunk_event (cp ''generation''))
         (filter (\<lambda>fragment. fragment \<noteq> [])
            (fst (generate_text agent oracle prompt
                    (Some (case ctx of None \<Rightarrow> Map.empty | Some c \<Rightarrow> c))))) @
       [complete_event (cp ''generation'')]"
      by (rule api_generate_shape)
    show "filter is_error (api_generate agent oracle prompt ctx) = []" using g by simp
    show "filter is_error (api_edit agent oracle prompt ctx) = []" using e by simp
    show "filter is_error (api_improve agent oracle prompt ctx) = []" using i by simp
    show "is_complete (cp ''generation'') (last (api_generate agent oracle prompt ctx))"
      using g by simp
    show "is_complete (cp ''edit'') (last (api_edit agent oracle prompt ctx))" using e by simp
    show "is_complete (cp ''improve'') (last (api_improve agent oracle prompt ctx))"
      using i by simp
    show "fst (generate_text agent oracle prompt ctx) =
        concat (map (\<lambda>(out, st). output_fragments out)
          (fst (graph_astream agent oracle (initial_state (cp ''generate'') prompt ctx)))) @
        [cp ''Error generating text: '' @ exc_str e]"
      if "snd (graph_astream agent oracle (initial_state (cp ''generate'') prompt ctx)) = Some e"
      for e using that by (rule h)
    show "\<exists>out. agent_node (Some invoke) oracle st = (Inr out, orc) \<and>
         output_fragments out = word_fragments (cp ''I encountered an error: '' @ exc_str e)"
      if "invoke oracle (conversation st) = (Inl e, orc)" for invoke e orc
      using that by (rule f)
    show "is_error (last (create_sse_stream (fragments, Some raised) action_type))" by (rule r)
  qed
qed


lemma error_entry_fragments:
  "word_fragments (cp ''I encountered an error: boom'') =
     [cp ''I '', cp ''encountered '', cp ''an '', cp ''error: '', cp ''boom '']"
  by (simp add: word_fragments_def py_split_def cp_def py_isspace_def)

theorem pipeline_exceptions_become_chunks_witness:
  "snd (graph_astream uninitialized_agent () (initial_state (cp ''generate'') (cp ''x'') None)) =
     Some (PyException ([39] @ cp ''NoneType'' @ [39] @ cp '' object has no attribute '' @
                        [39] @ cp ''astream'' @ [39])) \<and>
   fst (generate_text uninitialized_agent () (cp ''x'') None) =
     [cp ''Error generating text: '' @ [39] @ cp ''NoneType'' @ [39] @
      cp '' object has no attribute '' @ [39] @ cp ''astream'' @ [39]] \<and>
   failing_llm () (conversation (start_state 3)) = (Inl (PyException (cp ''boom'')), ()) \<and>
   (\<exists>out. agent_node (Some failing_llm) () (start_state 3) = (Inr out, ()) \<and>
      output_fragments out =
        [cp ''I '', cp ''encountered '', cp ''an '', cp ''error: '', cp ''boom ''])"
proof -
  let ?e = "PyException ([39] @ cp ''NoneType'' @ [39] @ cp '' object has no attribute '' @
                        [39] @ cp ''astream'' @ [39])"
  have h1: "snd (graph_astream uninitialized_agent ()
              (initial_state (cp ''generate'') (cp ''x'') None)) = Some ?e"
    by (simp add: graph_astream_def uninitialized_agent_def attribute_error_def)
  have h2: "failing_llm () (conversation (start_state 3)) = (Inl (PyException (cp ''boom'')), ())"
    by (simp add: failing_llm_def)
  note t = pipeline_exceptions_become_chunks
    [of uninitialized_agent "()" "cp ''x''" None "start_state 3"]
  from t h1 have a: "fst (generate_text uninitialized_agent () (cp ''x'') None) =
        concat (map (\<lambda>(out, st). output_fragments out)
          (fst (graph_astream uninitialized_agent ()
                  (initial_state (cp ''generate'') (cp ''x'') None)))) @
        [cp ''Error generating text: '' @ exc_str ?e]"
    by blast
  have a': "fst (generate_text uninitialized_agent () (cp ''x'') None) =
     [cp ''Error generating text: '' @ [39] @ cp ''NoneType'' @ [39] @
      cp '' object has no attribute '' @ [39] @ cp ''astream'' @ [39]]"
    unfolding a by (simp add: graph_astream_def uninitialized_agent_def attribute_error_def)
  from t h2 have "\<exists>out. agent_node (Some failing_llm) () (start_state 3) = (Inr out, ()) \<and>
      output_fragments out =
        word_fragments (cp ''I encountered an error: '' @ exc_str (PyException (cp ''boom'')))"
    by blast
  then have b: "\<exists>out. agent_node (Some failing_llm) () (start_state 3) = (Inr out, ()) \<and>
      output_fragments out =
        [cp ''I '', cp ''encountered '', cp ''an '', cp ''error: '', cp ''boom '']"
    using error_entry_fragments by (simp add: cp_def)
  from h1 a' h2 b show ?thesis by blast
qed

lemma failing_model_run:
  "astream default_recursion_limit (Some failing_llm) tools () st =
     ([(AgentOutput (conversation st @ [AIMessage (cp ''I encountered an error: boom'') []])
          (iterations st + 1),
        apply_output st
          (AgentOutput (conversation st @ [AIMessage (cp ''I encountered an error: boom'') []])
             (iterations st + 1)))],
      None)"
proof -
  have an: "agent_node (Some failing_llm) () st =
     (Inr (AgentOutput (conversation st @ [AIMessage (cp ''I encountered an error: boom'') []])
          (iterations st + 1)), ())"
    by (simp add: agent_node_def failing_llm_def Let_def cp_def)
  have "default_recursion_limit + 1 = Suc 25" by (simp add: default_recursion_limit_def)
  then show ?thesis
    by (simp add: astream_def graph_steps_unfold [OF an] should_continue_cases)
qed

lemma failing_model_fragments:
  "generate_text failing_model_agent () prompt ctx =
     ([cp ''I '', cp ''encountered '', cp ''an '', cp ''error: '', cp ''boom ''], None)"
  by (simp add: generate_text_def stream_action_def graph_astream_def failing_model_agent_def
        failing_model_run error_entry_fragments Let_def)

text \<open>
  Claim C3 as stated promises a start event and then one error event. When the graph
  is \<open>None\<close>, \<^verbatim>\<open>graph.astream\<close> raises inside \<^verbatim>\<open>generate_text\<close>; when the model
  call raises, the exception is raised inside the agent node. In both runs the stream
  has chunk events and ends with a complete event, and has no error event.
\<close>

theorem pipeline_exception_counterexample:
  "map event_type (api_generate uninitialized_agent () (cp ''x'') None) =
     [cp ''generation_start'', cp ''generation_chunk'', cp ''generation_complete''] \<and>
   map event_content (filter (is_chunk (cp ''generation''))
       (api_generate uninitialized_agent () (cp ''x'') None)) =
     [cp ''Error generating text: '' @ [39] @ cp ''NoneType'' @ [39] @
      cp '' object has no attribute '' @ [39] @ cp ''astream'' @ [39]] \<and>
   map event_type (api_generate failing_model_agent () (cp ''x'') None) =
     [cp ''generation_start'', cp ''generation_chunk'', cp ''generation_chunk'',
      cp ''generation_chunk'', cp ''generation_chunk'', cp ''generation_chunk'',
      cp ''generation_complete''] \<and>
   map event_content (filter (is_chunk (cp ''generation''))
       (api_generate failing_model_agent () (cp ''x'') None)) =
     [cp ''I '', cp ''encountered '', cp ''an '', cp ''error: '', cp ''boom '']"
proof -
  have u: "map event_type (api_generate uninitialized_agent () (cp ''x'') None) =
     [cp ''generation_start'', cp ''generation_chunk'', cp ''generation_complete'']"
    by (simp add: api_generate_shape uninitialized_fragments event_type_simps)
       (simp add: cp_def)
  have uc: "map event_content (filter (is_chunk (cp ''generation''))
       (api_generate uninitialized_agent () (cp ''x'') None)) =
     [cp ''Error generating text: '' @ [39] @ cp ''NoneType'' @ [39] @
      cp '' object has no attribute '' @ [39] @ cp ''astream'' @ [39]]"
    unfolding api_generate_def chunk_contents
    by (simp add: uninitialized_fragments)
  have f: "map event_type (api_generate failing_model_agent () (cp ''x'') None) =
     [cp ''generation_start'', cp ''generation_chunk'', cp ''generation_chunk'',
      cp ''generation_chunk'', cp ''generation_chunk'', cp ''generation_chunk'',
      cp ''generation_complete'']"
    by (simp add: api_generate_shape failing_model_fragments event_type_simps)
       (simp add: cp_def)
  have fc: "map event_content (filter (is_chunk (cp ''generation''))
       (api_generate failing_model_agent () (cp ''x'') None)) =
     [cp ''I '', cp ''encountered '', cp ''an '', cp ''error: '', cp ''boom '']"
    unfolding api_generate_def chunk_contents
    by (simp add: failing_model_fragments cp_def)
  from u uc f fc show ?thesis by simp
qed

end
